theory Spec2Isabelle
  imports Main
begin

section \<open>JavaScript values\<close>

text \<open>
  The services exchange JSON values: tool inputs, tool-result payloads and JSON schemas.
  A value is kept as a tree (numbers as integers: no function here computes with
  them). \<open>JSON.stringify\<close> and \<open>JSON.parse\<close> are builtins of the
  language, not code of the services, so every function that calls one takes it as a
  parameter: \<open>stringify\<close> renders a value, \<open>stringifyItem\<close> renders a content item
  (the key order of an item is fixed where the item was built, outside this code), and
  \<open>parse\<close> returns \<open>None\<close> where \<open>JSON.parse\<close> throws.
\<close>

datatype json =
    JNull
  | JBool bool
  | JNumber int
  | JString string
  | JArray "json list"
  | JObject "(string \<times> json) list"

text \<open>JavaScript truthiness of a JSON value and of an optional string.\<close>

fun falsy :: "json \<Rightarrow> bool" where
  "falsy JNull = True"
| "falsy (JBool b) = (\<not> b)"
| "falsy (JNumber n) = (n = 0)"
| "falsy (JString s) = (s = [])"
| "falsy (JArray xs) = False"
| "falsy (JObject kvs) = False"

fun truthy :: "string option \<Rightarrow> bool" where
  "truthy None = False"
| "truthy (Some s) = (s \<noteq> [])"

section \<open>Finish-reason normalisation\<close>

text \<open>
  \<open>mapOpenAiFinishReason\<close> of the LangChain-based OpenAI service. The argument is the
  last finish reason seen on the stream (\<open>None\<close> is \<open>null\<close>); the result is the
  \<open>stop_reason\<close> of the final message (\<open>None\<close> is \<open>null\<close>).
\<close>

definition mapOpenAiFinishReason :: "string option \<Rightarrow> string option" where
  "mapOpenAiFinishReason finishReason =
     (if \<not> truthy finishReason then None
      else if finishReason = Some ''stop'' then Some ''end_turn''
      else if finishReason = Some ''length'' then Some ''max_tokens''
      else if finishReason = Some ''tool_calls'' then None
      else finishReason)"

text \<open>
  The raw OpenAI service normalises inline, once per chunk that carries a truthy
  \<open>finish_reason\<close>: the function below is the assignment to
  \<open>finalMessage.stop_reason\<close>, given the value it had before.
\<close>

definition rawStopReason :: "string option \<Rightarrow> string option \<Rightarrow> string option" where
  "rawStopReason previous finish_reason =
     (if truthy finish_reason then
        (if finish_reason = Some ''stop'' then Some ''end_turn''
         else if finish_reason = Some ''tool_calls'' then None
         else finish_reason)
      else previous)"

section \<open>Tool declarations\<close>

text \<open>
  A tool of the catalog: \<open>{name, description, input_schema}\<close>, the last two optional.
  The OpenAI shape is \<open>{type: "function", function: {name, description, parameters}}\<close>.
\<close>

record tool =
  name :: string
  description :: "string option"
  input_schema :: "json option"

record openai_function =
  fn_name :: string
  fn_description :: string
  fn_parameters :: json

record openai_tool =
  tool_type :: string
  tool_function :: openai_function

definition orEmptyString :: "string option \<Rightarrow> string" where
  "orEmptyString s = (case s of None \<Rightarrow> [] | Some t \<Rightarrow> t)"

definition orJson :: "json option \<Rightarrow> json \<Rightarrow> json" where
  "orJson v dflt = (case v of None \<Rightarrow> dflt | Some j \<Rightarrow> (if falsy j then dflt else j))"

definition defaultParameters :: json where
  "defaultParameters =
     JObject [(''type'', JString ''object''), (''properties'', JObject []),
              (''additionalProperties'', JBool True)]"

definition openaiToolOf :: "json \<Rightarrow> tool \<Rightarrow> openai_tool" where
  "openaiToolOf dflt t =
     \<lparr> tool_type = ''function'',
       tool_function =
         \<lparr> fn_name = name t,
           fn_description = orEmptyString (description t),
           fn_parameters = orJson (input_schema t) dflt \<rparr> \<rparr>"

text \<open>
  \<open>convertClaudeToolsToOpenAITools\<close> (LangChain helper). The catalog is \<open>None\<close> when the
  caller passes no array; the result \<open>None\<close> is \<open>undefined\<close>.
\<close>

definition convertClaudeToolsToOpenAITools :: "tool list option \<Rightarrow> openai_tool list option" where
  "convertClaudeToolsToOpenAITools tools =
     (case tools of
        None \<Rightarrow> None
      | Some ts \<Rightarrow> if length ts = 0 then None else Some (map (openaiToolOf defaultParameters) ts))"

text \<open>
  The \<open>tools\<close> entry of the call options of the three services; \<open>None\<close> means the
  request carries no tools.
\<close>

definition openaiCallTools :: "tool list option \<Rightarrow> openai_tool list option" where
  "openaiCallTools tools =
     (case convertClaudeToolsToOpenAITools tools of None \<Rightarrow> None | Some ots \<Rightarrow> Some ots)"

definition claudeCallTools :: "tool list option \<Rightarrow> tool list option" where
  "claudeCallTools tools =
     (case tools of
        None \<Rightarrow> None
      | Some ts \<Rightarrow> if length ts > 0 then Some ts else None)"

definition rawOpenaiTools :: "tool list option \<Rightarrow> openai_tool list option" where
  "rawOpenaiTools tools =
     (case tools of
        None \<Rightarrow> None
      | Some ts \<Rightarrow> if length ts > 0 then Some (map (openaiToolOf (JObject [])) ts) else None)"

section \<open>Canonical messages\<close>

text \<open>
  A content block is an object tagged by its \<open>type\<close> field; the code also meets plain
  strings inside a content array and objects of a type it does not know. Blocks carry
  the fields of their type; \<open>null\<close> is a JSON value, and the \<open>content\<close> of a tool result
  may be missing (\<open>None\<close> is \<open>undefined\<close>).
\<close>

datatype block =
    Text string
  | ToolUse string string json
  | ToolResult string "json option"
  | ImageUrl json
  | StrItem string
  | OtherItem json

text \<open>
  \<open>Text t\<close> is \<open>{type: "text", text: t}\<close>; \<open>ToolUse i n inp\<close> is
  \<open>{type: "tool_use", id: i, name: n, input: inp}\<close>; \<open>ToolResult u c\<close> is
  \<open>{type: "tool_result", tool_use_id: u, content: c}\<close>; \<open>ImageUrl u\<close> is
  \<open>{type: "image_url", image_url: u}\<close>; \<open>StrItem s\<close> is the string \<open>s\<close> standing in a
  content array; \<open>OtherItem j\<close> is any other object, one with no field \<open>text\<close>.

  The content of a message is a string, an array of blocks or \<open>null\<close>; the branches
  of the code for a content that is a single object or a number have no counterpart
  here, and neither has its guard against a \<open>null\<close> entry of the history.
\<close>

datatype content = CString string | CBlocks "block list" | CNull

datatype role = System | User | Assistant | Tool

record message =
  role :: role
  content :: content
  tool_call_id :: "string option"
  message_id :: "string option"

record js =
  stringify :: "json \<Rightarrow> string"
  stringifyItem :: "block \<Rightarrow> string"
  parse :: "string \<Rightarrow> json option"

fun isText :: "block \<Rightarrow> bool" where
  "isText (Text t) = True"
| "isText b = False"

fun isToolUse :: "block \<Rightarrow> bool" where
  "isToolUse (ToolUse i n inp) = True"
| "isToolUse b = False"

fun isToolResult :: "block \<Rightarrow> bool" where
  "isToolResult (ToolResult u c) = True"
| "isToolResult b = False"

text \<open>\<open>Array.prototype.join\<close> on strings, and \<open>String(n)\<close> for an array length.\<close>

fun joinWith :: "string \<Rightarrow> string list \<Rightarrow> string" where
  "joinWith sep [] = []"
| "joinWith sep [x] = x"
| "joinWith sep (x # y # ys) = x @ sep @ joinWith sep (y # ys)"

definition digitChar :: "nat \<Rightarrow> char" where
  "digitChar d = char_of (48 + d)"

fun showNat :: "nat \<Rightarrow> string" where
  "showNat n = (if n < 10 then [digitChar n] else showNat (n div 10) @ [digitChar (n mod 10)])"

definition newline :: string where
  "newline = [CHR 0x0A]"

text \<open>\<open>x ?? {}\<close> on a JSON value.\<close>

definition orEmptyObject :: "json \<Rightarrow> json" where
  "orEmptyObject j = (if j = JNull then JObject [] else j)"

section \<open>The LangChain helpers\<close>

text \<open>The messages handed to LangChain.\<close>

record lc_tool_call =
  call_id :: "string option"
  call_name :: string
  call_args :: json

datatype lc_message =
    SystemMessage string
  | AIMessage content "lc_tool_call list"
  | HumanMessage content
  | ToolMessage string string

text \<open>\<open>ToolMessage c i\<close> has content \<open>c\<close> and \<open>tool_call_id\<close> \<open>i\<close>.\<close>

fun normalizeContentBlock :: "block \<Rightarrow> block" where
  "normalizeContentBlock (StrItem s) = Text s"
| "normalizeContentBlock (Text t) = Text t"
| "normalizeContentBlock (ToolUse i n inp) = ToolUse i n (orEmptyObject inp)"
| "normalizeContentBlock (ToolResult u c) = ToolResult u c"
| "normalizeContentBlock (ImageUrl u) = ImageUrl u"
| "normalizeContentBlock (OtherItem j) = OtherItem j"

fun normalizeContent :: "content \<Rightarrow> content" where
  "normalizeContent CNull = CString []"
| "normalizeContent (CString s) = CString s"
| "normalizeContent (CBlocks bs) = CBlocks (map normalizeContentBlock bs)"

fun extractToolCall :: "block \<Rightarrow> lc_tool_call option" where
  "extractToolCall (ToolUse i n inp) =
     Some \<lparr> call_id = Some i, call_name = n, call_args = orEmptyObject inp \<rparr>"
| "extractToolCall b = None"

fun extractToolCalls :: "content \<Rightarrow> lc_tool_call list" where
  "extractToolCalls (CBlocks bs) = List.map_filter extractToolCall bs"
| "extractToolCalls c = []"

fun isToolResultContent :: "content \<Rightarrow> bool" where
  "isToolResultContent (CBlocks bs) = (length bs > 0 \<and> list_all isToolResult bs)"
| "isToolResultContent c = False"

definition safeStringify :: "js \<Rightarrow> json \<Rightarrow> string" where
  "safeStringify env v = (case v of JString s \<Rightarrow> s | _ \<Rightarrow> stringify env v)"

text \<open>
  An object is a list of fields; \<open>field k kvs\<close> reads the field \<open>k\<close>.
\<close>

definition field :: "string \<Rightarrow> (string \<times> json) list \<Rightarrow> json option" where
  "field k kvs = map_of kvs k"

fun serializePart :: "js \<Rightarrow> json \<Rightarrow> string" where
  "serializePart env (JString s) = s"
| "serializePart env (JObject kvs) =
     (case (field ''type'' kvs, field ''text'' kvs) of
        (Some (JString ty), Some (JString t)) \<Rightarrow>
          if ty = ''text'' then t else safeStringify env (JObject kvs)
      | _ \<Rightarrow> safeStringify env (JObject kvs))"
| "serializePart env part = safeStringify env part"

fun serializeToolResultContent :: "js \<Rightarrow> json option \<Rightarrow> string" where
  "serializeToolResultContent env None = []"
| "serializeToolResultContent env (Some JNull) = []"
| "serializeToolResultContent env (Some (JString s)) = s"
| "serializeToolResultContent env (Some (JArray parts)) =
     joinWith newline (map (serializePart env) parts)"
| "serializeToolResultContent env (Some (JObject kvs)) =
     (case field ''text'' kvs of
        Some (JString t) \<Rightarrow> t
      | _ \<Rightarrow> safeStringify env (JObject kvs))"
| "serializeToolResultContent env (Some v) = safeStringify env v"

text \<open>
  The \<open>tool_call_id\<close> of a tool message: the first truthy one of the given ids, else
  \<open>tool_<n>\<close> with \<open>n\<close> the number of messages built so far.
\<close>

definition toolCallIdOr :: "string option \<Rightarrow> string option \<Rightarrow> nat \<Rightarrow> string" where
  "toolCallIdOr a b n =
     (case a of
        Some (c # cs) \<Rightarrow> c # cs
      | _ \<Rightarrow> (case b of Some (d # ds) \<Rightarrow> d # ds | _ \<Rightarrow> ''tool_'' @ showNat n))"

text \<open>
  \<open>serializeToolResultContent\<close> applied to the content of a message of role tool: the
  parts of an array are content blocks.
\<close>

fun serializeBlock :: "js \<Rightarrow> block \<Rightarrow> string" where
  "serializeBlock env (StrItem s) = s"
| "serializeBlock env (Text t) = t"
| "serializeBlock env b = stringifyItem env b"

fun serializeMessageContent :: "js \<Rightarrow> content \<Rightarrow> string" where
  "serializeMessageContent env CNull = []"
| "serializeMessageContent env (CString s) = s"
| "serializeMessageContent env (CBlocks bs) = joinWith newline (map (serializeBlock env) bs)"

text \<open>
  The split of a tool-result-only user message: one \<open>ToolMessage\<close> per block, appended to
  the messages built so far. The loop runs only on a content whose blocks are all
  \<open>tool_result\<close> blocks, so the last equation is never reached from
  \<open>buildLangChainMessages\<close>.
\<close>

fun splitToolResults :: "js \<Rightarrow> lc_message list \<Rightarrow> block list \<Rightarrow> lc_message list" where
  "splitToolResults env lcMessages [] = lcMessages"
| "splitToolResults env lcMessages (ToolResult u c # bs) =
     splitToolResults env
       (lcMessages @
          [ToolMessage (serializeToolResultContent env c)
             (toolCallIdOr (Some u) None (length lcMessages))])
       bs"
| "splitToolResults env lcMessages (b # bs) = splitToolResults env lcMessages bs"

text \<open>The body of the loop of \<open>buildLangChainMessages\<close>, for one message.\<close>

definition pushMessage :: "js \<Rightarrow> lc_message list \<Rightarrow> message \<Rightarrow> lc_message list" where
  "pushMessage env lcMessages m =
     (case role m of
        System \<Rightarrow> lcMessages
      | Assistant \<Rightarrow>
          lcMessages @ [AIMessage (normalizeContent (content m)) (extractToolCalls (content m))]
      | User \<Rightarrow>
          (if isToolResultContent (content m) then
             (case content m of
                CBlocks bs \<Rightarrow> splitToolResults env lcMessages bs
              | _ \<Rightarrow> lcMessages)
           else lcMessages @ [HumanMessage (normalizeContent (content m))])
      | Tool \<Rightarrow>
          lcMessages @
            [ToolMessage
               (serializeMessageContent env (content m))
               (toolCallIdOr (tool_call_id m) (message_id m) (length lcMessages))])"

fun pushMessages :: "js \<Rightarrow> lc_message list \<Rightarrow> message list \<Rightarrow> lc_message list" where
  "pushMessages env lcMessages [] = lcMessages"
| "pushMessages env lcMessages (m # ms) = pushMessages env (pushMessage env lcMessages m) ms"

text \<open>
  \<open>buildLangChainMessages\<close>: the system instruction is optional (\<open>None\<close> when the caller
  passes none) and is used when truthy.
\<close>

definition buildLangChainMessages :: "js \<Rightarrow> message list \<Rightarrow> string option \<Rightarrow> lc_message list" where
  "buildLangChainMessages env messages systemInstruction =
     pushMessages env
       (case systemInstruction of
          Some (c # cs) \<Rightarrow> [SystemMessage (c # cs)]
        | _ \<Rightarrow> [])
       messages"

section \<open>From a LangChain message to the canonical assistant message\<close>

text \<open>
  What the services read of an \<open>AIMessageChunk\<close>: its content, its \<open>tool_calls\<close>
  (\<open>None\<close> when absent), \<open>additional_kwargs.stop_reason\<close>,
  \<open>additional_kwargs.delta.text\<close> and \<open>response_metadata.finish_reason\<close>.
\<close>

record ai_message_like =
  chunk_content :: content
  tool_calls :: "lc_tool_call list option"
  kw_stop_reason :: "string option"
  kw_delta_text :: "string option"
  md_finish_reason :: "string option"

text \<open>The message every service returns: \<open>{role: "assistant", content, stop_reason}\<close>.\<close>

record claude_message =
  final_role :: role
  final_content :: "block list"
  stop_reason :: "string option"

fun convertContentBlock :: "block \<Rightarrow> block" where
  "convertContentBlock (StrItem s) = Text s"
| "convertContentBlock (Text t) = Text t"
| "convertContentBlock (ToolUse i n inp) = ToolUse i n (orEmptyObject inp)"
| "convertContentBlock (ToolResult u c) = ToolResult u c"
| "convertContentBlock b = b"

fun convertContentToClaudeBlocks :: "content \<Rightarrow> block list" where
  "convertContentToClaudeBlocks CNull = []"
| "convertContentToClaudeBlocks (CString s) = (if length s > 0 then [Text s] else [])"
| "convertContentToClaudeBlocks (CBlocks bs) = map convertContentBlock bs"

text \<open>
  \<open>existingToolIds\<close>: the truthy ids of the \<open>tool_use\<close> blocks of the converted content
  (a \<open>Set\<close> in the source; only membership is asked of it).
\<close>

fun existingToolIds :: "block list \<Rightarrow> string list" where
  "existingToolIds [] = []"
| "existingToolIds (ToolUse i n inp # bs) =
     (if i \<noteq> [] then i # existingToolIds bs else existingToolIds bs)"
| "existingToolIds (b # bs) = existingToolIds bs"

definition hasId :: "string list \<Rightarrow> string option \<Rightarrow> bool" where
  "hasId ids i = (case i of None \<Rightarrow> False | Some s \<Rightarrow> s \<in> set ids)"

text \<open>
  A kept tool call becomes a \<open>tool_use\<close> block. A call with no truthy id gets
  \<open>toolu_<Date.now()>\<close>; \<open>now\<close> is the reading of the clock at that moment.
\<close>

definition toolBlockOf :: "nat \<Rightarrow> lc_tool_call \<Rightarrow> block" where
  "toolBlockOf now tc =
     ToolUse
       (case call_id tc of Some (c # cs) \<Rightarrow> c # cs | _ \<Rightarrow> ''toolu_'' @ showNat now)
       (call_name tc)
       (if falsy (call_args tc) then JObject [] else call_args tc)"

text \<open>
  The \<open>map\<close> over the kept tool calls; \<open>dateNow k\<close> is the clock while the call at
  position \<open>k\<close> is mapped.
\<close>

fun toolBlocksFrom :: "(nat \<Rightarrow> nat) \<Rightarrow> nat \<Rightarrow> lc_tool_call list \<Rightarrow> block list" where
  "toolBlocksFrom dateNow k [] = []"
| "toolBlocksFrom dateNow k (tc # tcs) =
     toolBlockOf (dateNow k) tc # toolBlocksFrom dateNow (Suc k) tcs"

definition convertAIMessageLikeToClaudeMessage ::
  "(nat \<Rightarrow> nat) \<Rightarrow> ai_message_like option \<Rightarrow> string option \<Rightarrow> claude_message" where
  "convertAIMessageLikeToClaudeMessage dateNow messageLike stopReason =
     (case messageLike of
        None \<Rightarrow> \<lparr> final_role = Assistant, final_content = [], stop_reason = stopReason \<rparr>
      | Some m \<Rightarrow>
          (let contentBlocks = convertContentToClaudeBlocks (chunk_content m);
               existing = existingToolIds contentBlocks;
               toolBlocks =
                 toolBlocksFrom dateNow 0
                   (filter (\<lambda>toolCall. \<not> hasId existing (call_id toolCall))
                      (case tool_calls m of None \<Rightarrow> [] | Some tcs \<Rightarrow> tcs))
           in \<lparr> final_role = Assistant,
                final_content = contentBlocks @ toolBlocks,
                stop_reason =
                  (case stopReason of Some r \<Rightarrow> Some r | None \<Rightarrow> kw_stop_reason m) \<rparr>))"

fun textOfTextBlocks :: "block list \<Rightarrow> string" where
  "textOfTextBlocks [] = []"
| "textOfTextBlocks (Text t # bs) = t @ textOfTextBlocks bs"
| "textOfTextBlocks (b # bs) = textOfTextBlocks bs"

definition extractTextDeltaFromChunk :: "ai_message_like \<Rightarrow> string option" where
  "extractTextDeltaFromChunk chunk =
     (let deltaText = (case kw_delta_text chunk of Some (c # cs) \<Rightarrow> Some (c # cs) | _ \<Rightarrow> None)
      in case chunk_content chunk of
           CString s \<Rightarrow> if length s > 0 then Some s else None
         | CBlocks bs \<Rightarrow>
             (let text = textOfTextBlocks bs
              in if length text > 0 then Some text else deltaText)
         | CNull \<Rightarrow> deltaText)"

text \<open>
  \<open>createEmptyAIMessageChunk\<close>: a chunk built from \<open>{content: ""}\<close> alone; its other
  fields are the defaults of LangChain's constructor.
\<close>

definition createEmptyAIMessageChunk :: ai_message_like where
  "createEmptyAIMessageChunk =
     \<lparr> chunk_content = CString [], tool_calls = Some [], kw_stop_reason = None,
       kw_delta_text = None, md_finish_reason = None \<rparr>"

section \<open>The LangChain-based services\<close>

text \<open>
  The stream handlers act on the caller's world \<open>'w\<close>: a handler is a function from its
  argument and the world before the call to the world after it, and a handler that is
  not supplied is \<open>None\<close>. Handlers are taken to return: a handler that throws is
  outside the model.

  \<open>onToolUse\<close> returns an awaitable. Its run is a list of steps, each of them a change
  of the world: the call itself runs the first step, up to the first suspension of the
  handler, and the awaitable settles once the last step has run. \<open>await\<close> resumes the
  caller only then, so an awaited call runs every step of the handler before the next
  statement of the caller (\<open>runSteps\<close>); a call that is not awaited would let the caller
  go on after the first step. The steps of other tasks of the event loop have no
  counterpart here.
\<close>

record 'w stream_handlers =
  onText :: "(string \<Rightarrow> 'w \<Rightarrow> 'w) option"
  onContentBlock :: "(block \<Rightarrow> 'w \<Rightarrow> 'w) option"
  onMessage :: "(claude_message \<Rightarrow> 'w \<Rightarrow> 'w) option"
  onToolUse :: "(block \<Rightarrow> ('w \<Rightarrow> 'w) list) option"

fun runSteps :: "('w \<Rightarrow> 'w) list \<Rightarrow> 'w \<Rightarrow> 'w" where
  "runSteps [] w = w"
| "runSteps (step # steps) w = runSteps steps (step w)"

definition callOpt :: "('a \<Rightarrow> 'w \<Rightarrow> 'w) option \<Rightarrow> 'a \<Rightarrow> 'w \<Rightarrow> 'w" where
  "callOpt h x w = (case h of None \<Rightarrow> w | Some f \<Rightarrow> f x w)"

text \<open>
  The state of the stream loop: the chunk aggregated so far, the last truthy stop (or
  finish) reason, and the world. \<open>concatChunks\<close> is LangChain's \<open>AIMessageChunk.concat\<close>, a
  parameter. The provider's stream is the list of chunks it delivered before it ended.
\<close>

record 'w lc_state =
  aggregatedChunk :: "ai_message_like option"
  latestReason :: "string option"
  lc_world :: "'w"

definition lcStep ::
  "(ai_message_like \<Rightarrow> ai_message_like \<Rightarrow> ai_message_like) \<Rightarrow>
   (ai_message_like \<Rightarrow> string option) \<Rightarrow> 'w stream_handlers \<Rightarrow>
   'w lc_state \<Rightarrow> ai_message_like \<Rightarrow> 'w lc_state" where
  "lcStep concatChunks reasonOf handlers st chunk =
     \<lparr> aggregatedChunk =
         Some (case aggregatedChunk st of None \<Rightarrow> chunk | Some a \<Rightarrow> concatChunks a chunk),
       latestReason =
         (if truthy (reasonOf chunk) then reasonOf chunk else latestReason st),
       lc_world =
         (case extractTextDeltaFromChunk chunk of
            None \<Rightarrow> lc_world st
          | Some textDelta \<Rightarrow>
              callOpt (onContentBlock handlers) (Text textDelta)
                (callOpt (onText handlers) textDelta (lc_world st))) \<rparr>"

fun lcLoop ::
  "(ai_message_like \<Rightarrow> ai_message_like \<Rightarrow> ai_message_like) \<Rightarrow>
   (ai_message_like \<Rightarrow> string option) \<Rightarrow> 'w stream_handlers \<Rightarrow>
   'w lc_state \<Rightarrow> ai_message_like list \<Rightarrow> 'w lc_state" where
  "lcLoop concatChunks reasonOf handlers st [] = st"
| "lcLoop concatChunks reasonOf handlers st (chunk # chunks) =
     lcLoop concatChunks reasonOf handlers (lcStep concatChunks reasonOf handlers st chunk) chunks"

text \<open>
  The loop over the content of the final message that awaits \<open>onToolUse\<close> on every
  \<open>tool_use\<close> block.
\<close>

fun dispatchToolUse :: "(block \<Rightarrow> ('w \<Rightarrow> 'w) list) \<Rightarrow> block list \<Rightarrow> 'w \<Rightarrow> 'w" where
  "dispatchToolUse h [] w = w"
| "dispatchToolUse h (contentBlock # bs) w =
     (if isToolUse contentBlock then dispatchToolUse h bs (runSteps (h contentBlock) w)
      else dispatchToolUse h bs w)"

text \<open>
  What both services do once the stream has ended, from the final state of the loop and
  the stop reason handed to the conversion: the final message and the final world.
\<close>

definition lcFinish ::
  "(nat \<Rightarrow> nat) \<Rightarrow> 'w stream_handlers \<Rightarrow> 'w lc_state \<Rightarrow> string option \<Rightarrow>
   claude_message \<times> 'w" where
  "lcFinish dateNow handlers st stopReason =
     (let finalChunk =
            (case aggregatedChunk st of None \<Rightarrow> createEmptyAIMessageChunk | Some a \<Rightarrow> a);
          finalMessage = convertAIMessageLikeToClaudeMessage dateNow (Some finalChunk) stopReason;
          w1 = callOpt (onMessage handlers) finalMessage (lc_world st)
      in (finalMessage,
          (case onToolUse handlers of
             None \<Rightarrow> w1
           | Some h \<Rightarrow> dispatchToolUse h (final_content finalMessage) w1)))"

definition lcInit :: "'w \<Rightarrow> 'w lc_state" where
  "lcInit w = \<lparr> aggregatedChunk = None, latestReason = None, lc_world = w \<rparr>"

text \<open>\<open>streamConversation\<close> of the Claude service, after the call to the provider.\<close>

definition streamConversation_claude ::
  "(ai_message_like \<Rightarrow> ai_message_like \<Rightarrow> ai_message_like) \<Rightarrow> (nat \<Rightarrow> nat) \<Rightarrow>
   'w stream_handlers \<Rightarrow> ai_message_like list \<Rightarrow> 'w \<Rightarrow> claude_message \<times> 'w" where
  "streamConversation_claude concatChunks dateNow handlers stream w =
     (let st = lcLoop concatChunks kw_stop_reason handlers (lcInit w) stream
      in lcFinish dateNow handlers st (latestReason st))"

text \<open>\<open>streamConversation\<close> of the LangChain-based OpenAI service.\<close>

definition streamConversation_openai ::
  "(ai_message_like \<Rightarrow> ai_message_like \<Rightarrow> ai_message_like) \<Rightarrow> (nat \<Rightarrow> nat) \<Rightarrow>
   'w stream_handlers \<Rightarrow> ai_message_like list \<Rightarrow> 'w \<Rightarrow> claude_message \<times> 'w" where
  "streamConversation_openai concatChunks dateNow handlers stream w =
     (let st = lcLoop concatChunks md_finish_reason handlers (lcInit w) stream
      in lcFinish dateNow handlers st (mapOpenAiFinishReason (latestReason st)))"

section \<open>The raw OpenAI service: the outbound messages\<close>


record openai_tool_call =
  tc_id :: string
  tc_type :: string
  tc_name :: string
  tc_arguments :: string




text \<open>The loop over the content of an assistant message fills two arrays.\<close>

fun toolCallsOf :: "js \<Rightarrow> block list \<Rightarrow> openai_tool_call list" where
  "toolCallsOf env [] = []"
| "toolCallsOf env (ToolUse i n inp # bs) =
     \<lparr> tc_id = i, tc_type = ''function'', tc_name = n, tc_arguments = stringify env inp \<rparr>
       # toolCallsOf env bs"
| "toolCallsOf env (b # bs) = toolCallsOf env bs"





















section \<open>The raw OpenAI service: the stream\<close>

text \<open>
  A chunk of the stream is \<open>chunk.choices[0]\<close>, \<open>None\<close> when the chunk has no
  choice. A choice carries \<open>delta.content\<close>, \<open>delta.tool_calls\<close> and \<open>finish_reason\<close>,
  each of them optional; a tool-call delta carries its index and, optionally, an id, a
  piece of the function name and a piece of the argument text.
\<close>

record tool_call_delta =
  delta_index :: nat
  delta_id :: "string option"
  delta_name :: "string option"
  delta_arguments :: "string option"

record choice =
  delta_content :: "string option"
  delta_tool_calls :: "tool_call_delta list option"
  finish_reason :: "string option"

definition orEmpty :: "string option \<Rightarrow> string" where
  "orEmpty s = (case s of Some (c # cs) \<Rightarrow> c # cs | _ \<Rightarrow> [])"

text \<open>
  One tool-call delta: a new entry is pushed when the index is not below the length of
  \<open>accumulatedToolCalls\<close>; otherwise the entry at the index grows by the truthy pieces.
\<close>

definition applyToolCallDelta ::
  "openai_tool_call list \<Rightarrow> tool_call_delta \<Rightarrow> openai_tool_call list" where
  "applyToolCallDelta accumulatedToolCalls toolCallDelta =
     (let index = delta_index toolCallDelta
      in if index \<ge> length accumulatedToolCalls then
           accumulatedToolCalls @
             [\<lparr> tc_id = orEmpty (delta_id toolCallDelta), tc_type = ''function'',
                tc_name = orEmpty (delta_name toolCallDelta),
                tc_arguments = orEmpty (delta_arguments toolCallDelta) \<rparr>]
         else
           accumulatedToolCalls
             [index :=
                (accumulatedToolCalls ! index)
                  \<lparr> tc_name := tc_name (accumulatedToolCalls ! index)
                                 @ orEmpty (delta_name toolCallDelta),
                    tc_arguments := tc_arguments (accumulatedToolCalls ! index)
                                      @ orEmpty (delta_arguments toolCallDelta) \<rparr>])"

fun applyToolCallDeltas ::
  "openai_tool_call list \<Rightarrow> tool_call_delta list \<Rightarrow> openai_tool_call list" where
  "applyToolCallDeltas accumulatedToolCalls [] = accumulatedToolCalls"
| "applyToolCallDeltas accumulatedToolCalls (d # ds) =
     applyToolCallDeltas (applyToolCallDelta accumulatedToolCalls d) ds"

record 'w raw_state =
  accumulatedContent :: "block list"
  accumulatedToolCalls :: "openai_tool_call list"
  raw_stop_reason :: "string option"
  raw_world :: "'w"

definition rawStep :: "'w stream_handlers \<Rightarrow> 'w raw_state \<Rightarrow> choice option \<Rightarrow> 'w raw_state" where
  "rawStep handlers st chunk =
     (case chunk of
        None \<Rightarrow> st
      | Some choice \<Rightarrow>
          (case delta_content choice of
             Some (c # cs) \<Rightarrow>
               \<lparr> accumulatedContent = accumulatedContent st @ [Text (c # cs)],
                 accumulatedToolCalls =
                   (case delta_tool_calls choice of
                      None \<Rightarrow> accumulatedToolCalls st
                    | Some ds \<Rightarrow> applyToolCallDeltas (accumulatedToolCalls st) ds),
                 raw_stop_reason = rawStopReason (raw_stop_reason st) (finish_reason choice),
                 raw_world =
                   callOpt (onContentBlock handlers) (Text (c # cs))
                     (callOpt (onText handlers) (c # cs) (raw_world st)) \<rparr>
           | _ \<Rightarrow>
               \<lparr> accumulatedContent = accumulatedContent st,
                 accumulatedToolCalls =
                   (case delta_tool_calls choice of
                      None \<Rightarrow> accumulatedToolCalls st
                    | Some ds \<Rightarrow> applyToolCallDeltas (accumulatedToolCalls st) ds),
                 raw_stop_reason = rawStopReason (raw_stop_reason st) (finish_reason choice),
                 raw_world = raw_world st \<rparr>))"

fun rawLoop :: "'w stream_handlers \<Rightarrow> 'w raw_state \<Rightarrow> choice option list \<Rightarrow> 'w raw_state" where
  "rawLoop handlers st [] = st"
| "rawLoop handlers st (chunk # chunks) = rawLoop handlers (rawStep handlers st chunk) chunks"

definition rawInit :: "'w \<Rightarrow> 'w raw_state" where
  "rawInit w =
     \<lparr> accumulatedContent = [], accumulatedToolCalls = [], raw_stop_reason = None,
       raw_world = w \<rparr>"

text \<open>
  After the stream: the loop that adds a \<open>tool_use\<close> block for every accumulated tool
  call whose argument text parses; a failure is caught and written to the console (the
  model keeps the argument text that failed, in the order of the writes).
\<close>

fun toolUseBlocks :: "js \<Rightarrow> openai_tool_call list \<Rightarrow> block list" where
  "toolUseBlocks env [] = []"
| "toolUseBlocks env (toolCall # tcs) =
     (case parse env (tc_arguments toolCall) of
        Some toolArgs \<Rightarrow> ToolUse (tc_id toolCall) (tc_name toolCall) toolArgs # toolUseBlocks env tcs
      | None \<Rightarrow> toolUseBlocks env tcs)"

fun parseFailures :: "js \<Rightarrow> openai_tool_call list \<Rightarrow> string list" where
  "parseFailures env [] = []"
| "parseFailures env (toolCall # tcs) =
     (case parse env (tc_arguments toolCall) of
        Some toolArgs \<Rightarrow> parseFailures env tcs
      | None \<Rightarrow> tc_arguments toolCall # parseFailures env tcs)"

text \<open>
  The second loop over the accumulated tool calls, run when \<open>onToolUse\<close> is supplied:
  the handler is awaited on the block of every tool call whose argument text parses.
\<close>

fun rawDispatch ::
  "js \<Rightarrow> (block \<Rightarrow> ('w \<Rightarrow> 'w) list) \<Rightarrow> openai_tool_call list \<Rightarrow> 'w \<Rightarrow> 'w" where
  "rawDispatch env h [] w = w"
| "rawDispatch env h (toolCall # tcs) w =
     (case parse env (tc_arguments toolCall) of
        Some toolArgs \<Rightarrow>
          rawDispatch env h tcs
            (runSteps (h (ToolUse (tc_id toolCall) (tc_name toolCall) toolArgs)) w)
      | None \<Rightarrow> rawDispatch env h tcs w)"

text \<open>
  \<open>streamConversation\<close> of the raw OpenAI service, after the call to the provider: the
  final message, the final world and what was written to the console.
\<close>

definition rawFinalMessage :: "js \<Rightarrow> 'w raw_state \<Rightarrow> claude_message" where
  "rawFinalMessage env st =
     \<lparr> final_role = Assistant,
       final_content = accumulatedContent st @ toolUseBlocks env (accumulatedToolCalls st),
       stop_reason = raw_stop_reason st \<rparr>"

definition rawFinish ::
  "js \<Rightarrow> 'w stream_handlers \<Rightarrow> 'w raw_state \<Rightarrow> claude_message \<times> 'w \<times> string list" where
  "rawFinish env handlers st =
     (let finalMessage = rawFinalMessage env st;
          w1 = (case onToolUse handlers of
                  None \<Rightarrow> raw_world st
                | Some h \<Rightarrow> rawDispatch env h (accumulatedToolCalls st) (raw_world st))
      in (finalMessage,
          callOpt (onMessage handlers) finalMessage w1,
          parseFailures env (accumulatedToolCalls st)
            @ (case onToolUse handlers of
                 None \<Rightarrow> []
               | Some h \<Rightarrow> parseFailures env (accumulatedToolCalls st))))"

definition streamConversation_raw ::
  "js \<Rightarrow> 'w stream_handlers \<Rightarrow> choice option list \<Rightarrow> 'w \<Rightarrow>
   claude_message \<times> 'w \<times> string list" where
  "streamConversation_raw env handlers stream w =
     rawFinish env handlers (rawLoop handlers (rawInit w) stream)"

section \<open>Vocabulary of the properties\<close>

text \<open>
  The text fragments a raw OpenAI stream delivers, in order: the truthy
  \<open>delta.content\<close> of its chunks.
\<close>

fun rawFragments :: "choice option list \<Rightarrow> string list" where
  "rawFragments [] = []"
| "rawFragments (None # chunks) = rawFragments chunks"
| "rawFragments (Some ch # chunks) =
     (case delta_content ch of
        Some (c # cs) \<Rightarrow> (c # cs) # rawFragments chunks
      | _ \<Rightarrow> rawFragments chunks)"

text \<open>A LangChain chunk whose content is a string, and that string.\<close>

fun isString :: "content \<Rightarrow> bool" where
  "isString (CString s) = True"
| "isString c = False"

fun contentString :: "content \<Rightarrow> string" where
  "contentString (CString s) = s"
| "contentString c = []"

text \<open>The ids of the \<open>tool_use\<close> blocks of a content, in order.\<close>

fun toolUseIds :: "block list \<Rightarrow> string list" where
  "toolUseIds [] = []"
| "toolUseIds (ToolUse i n inp # bs) = i # toolUseIds bs"
| "toolUseIds (b # bs) = toolUseIds bs"

fun isSystemMessage :: "lc_message \<Rightarrow> bool" where
  "isSystemMessage (SystemMessage s) = True"
| "isSystemMessage m = False"

text \<open>Fixtures of the examples: no handler at all, a JSON environment, chunks.\<close>

definition noHandlers :: "unit stream_handlers" where
  "noHandlers = \<lparr> onText = None, onContentBlock = None, onMessage = None, onToolUse = None \<rparr>"

definition sampleJs :: js where
  \<open>sampleJs =
     \<lparr> stringify = (\<lambda>j. ''<json>''),
       stringifyItem = (\<lambda>b. ''<item>''),
       parse = (\<lambda>s. if s = ''{}'' then Some (JObject [])
                     else if s = ''{"q":"ball"}'' then Some (JObject [(''q'', JString ''ball'')])
                     else None) \<rparr>\<close>

definition textChunk :: "string \<Rightarrow> string option \<Rightarrow> choice option" where
  "textChunk s fr = Some \<lparr> delta_content = Some s, delta_tool_calls = None, finish_reason = fr \<rparr>"

definition toolChunk :: "tool_call_delta list \<Rightarrow> string option \<Rightarrow> choice option" where
  "toolChunk ds fr = Some \<lparr> delta_content = None, delta_tool_calls = Some ds, finish_reason = fr \<rparr>"

definition stringChunk :: "string \<Rightarrow> ai_message_like" where
  "stringChunk s =
     \<lparr> chunk_content = CString s, tool_calls = None, kw_stop_reason = None,
       kw_delta_text = None, md_finish_reason = None \<rparr>"

text \<open>A stand-in for LangChain's \<open>concat\<close> on chunks with string contents.\<close>

definition concatStrings :: "ai_message_like \<Rightarrow> ai_message_like \<Rightarrow> ai_message_like" where
  "concatStrings a b =
     a\<lparr> chunk_content := CString (contentString (chunk_content a) @ contentString (chunk_content b)) \<rparr>"

text \<open>
  A handler awaited on each block of a list in turn: every step of a call runs before
  the first step of the call for the next block.
\<close>

definition awaitEach :: "(block \<Rightarrow> ('w \<Rightarrow> 'w) list) \<Rightarrow> block list \<Rightarrow> 'w \<Rightarrow> 'w" where
  "awaitEach h bs w = foldl (\<lambda>w' b. runSteps (h b) w') w bs"

text \<open>
  A handler of two steps that writes the start and the end of its run in a log.
\<close>

datatype dispatch_event = Started block | Finished block

definition traceToolUse :: "block \<Rightarrow> (dispatch_event list \<Rightarrow> dispatch_event list) list" where
  "traceToolUse b = [\<lambda>log. log @ [Started b], \<lambda>log. log @ [Finished b]]"

text \<open>
  The tool-call deltas of a raw OpenAI stream, in the order of arrival. They arrive in
  order when the index of every delta is at most the number of slots opened before it:
  the delta that opens slot \<open>n\<close> carries the index \<open>n\<close>. \<open>slotOf ds k\<close> is the tool
  call assembled from the deltas of \<open>ds\<close> whose index is \<open>k\<close>: the id of the first of
  them, and their name pieces and argument pieces concatenated in the order of arrival.
\<close>

fun deltasOf :: "choice option list \<Rightarrow> tool_call_delta list" where
  "deltasOf [] = []"
| "deltasOf (None # chunks) = deltasOf chunks"
| "deltasOf (Some ch # chunks) =
     (case delta_tool_calls ch of None \<Rightarrow> [] | Some ds \<Rightarrow> ds) @ deltasOf chunks"

fun arriveInOrder :: "nat \<Rightarrow> tool_call_delta list \<Rightarrow> bool" where
  "arriveInOrder n [] = True"
| "arriveInOrder n (d # ds) =
     (delta_index d \<le> n \<and> arriveInOrder (if delta_index d = n then Suc n else n) ds)"

definition slotOf :: "tool_call_delta list \<Rightarrow> nat \<Rightarrow> openai_tool_call" where
  "slotOf ds k =
     \<lparr> tc_id = (case filter (\<lambda>d. delta_index d = k) ds of
                  [] \<Rightarrow> []
                | d # rest \<Rightarrow> orEmpty (delta_id d)),
       tc_type = ''function'',
       tc_name = concat (map (\<lambda>d. orEmpty (delta_name d)) (filter (\<lambda>d. delta_index d = k) ds)),
       tc_arguments =
         concat (map (\<lambda>d. orEmpty (delta_arguments d)) (filter (\<lambda>d. delta_index d = k) ds)) \<rparr>"

text \<open>What the accumulation keeps true while the deltas arrive in order.\<close>

definition slotsInv :: "nat \<Rightarrow> tool_call_delta list \<Rightarrow> openai_tool_call list \<Rightarrow> bool" where
  "slotsInv n pre acc =
     (acc = map (slotOf pre) [0..<n]
      \<and> (\<forall>d \<in> set pre. delta_index d < n)
      \<and> (\<forall>k < n. \<exists>d \<in> set pre. delta_index d = k))"

definition parses :: "js \<Rightarrow> openai_tool_call \<Rightarrow> bool" where
  "parses env toolCall = (parse env (tc_arguments toolCall) \<noteq> None)"

text \<open>The tool calls of a LangChain message: \<open>messageLike.tool_calls || []\<close>.\<close>

definition callsOf :: "ai_message_like \<Rightarrow> lc_tool_call list" where
  "callsOf m = (case tool_calls m of None \<Rightarrow> [] | Some tcs \<Rightarrow> tcs)"









text \<open>Messages of the examples.\<close>

definition userText :: "string \<Rightarrow> message" where
  "userText s = \<lparr> role = User, content = CString s, tool_call_id = None, message_id = None \<rparr>"

definition systemText :: "string \<Rightarrow> message" where
  "systemText s = \<lparr> role = System, content = CString s, tool_call_id = None, message_id = None \<rparr>"


definition messageLike :: "content \<Rightarrow> lc_tool_call list \<Rightarrow> ai_message_like" where
  "messageLike c tcs =
     \<lparr> chunk_content = c, tool_calls = Some tcs, kw_stop_reason = None, kw_delta_text = None,
       md_finish_reason = None \<rparr>"

definition toolCall :: "string \<Rightarrow> string \<Rightarrow> lc_tool_call" where
  "toolCall i n = \<lparr> call_id = Some i, call_name = n, call_args = JObject [] \<rparr>"

section \<open>Properties: finish reasons\<close>

text \<open>
  C6, as the code has it. \<open>mapOpenAiFinishReason\<close> sends "stop" to "end_turn" and
  "length" to "max_tokens"; it sends the tool-calling code "tool_calls" to \<open>null\<close>, the
  value it also returns for an absent (or empty) code, and that value is not "end_turn";
  every other non-empty code is returned unchanged. It is a total function: nothing is
  raised. The inline normaliser of the raw OpenAI service agrees on "stop" and on
  "tool_calls" and leaves the stop reason as it was on a chunk with no finish reason.
\<close>

theorem finish_reason_mapping:
  "mapOpenAiFinishReason (Some ''stop'') = Some ''end_turn''
   \<and> mapOpenAiFinishReason (Some ''length'') = Some ''max_tokens''
   \<and> mapOpenAiFinishReason (Some ''tool_calls'') = None
   \<and> mapOpenAiFinishReason (Some ''tool_calls'') \<noteq> Some ''end_turn''
   \<and> mapOpenAiFinishReason None = None
   \<and> mapOpenAiFinishReason (Some []) = None
   \<and> mapOpenAiFinishReason (Some code) =
       (if code = [] \<or> code = ''tool_calls'' then None
        else if code = ''stop'' then Some ''end_turn''
        else if code = ''length'' then Some ''max_tokens''
        else Some code)
   \<and> rawStopReason previous (Some ''stop'') = Some ''end_turn''
   \<and> rawStopReason previous (Some ''tool_calls'') = None
   \<and> rawStopReason previous None = previous"
  by (simp add: mapOpenAiFinishReason_def rawStopReason_def)

text \<open>
  C6 as stated asks for a tool-invocation-pending value of its own. The code has none:
  the tool-calling code and the absent code give the same result, \<open>null\<close>.
\<close>

theorem finish_reason_tool_calls_is_null:
  "mapOpenAiFinishReason (Some ''tool_calls'') = mapOpenAiFinishReason None
   \<and> mapOpenAiFinishReason (Some ''tool_calls'') = None"
  by (simp add: mapOpenAiFinishReason_def)

section \<open>Properties: tool declarations\<close>

lemma convertClaudeToolsToOpenAITools_nonempty:
  "ts \<noteq> [] \<Longrightarrow>
   convertClaudeToolsToOpenAITools (Some ts) = Some (map (openaiToolOf defaultParameters) ts)"
  by (simp add: convertClaudeToolsToOpenAITools_def)

lemma rawOpenaiTools_nonempty:
  "ts \<noteq> [] \<Longrightarrow> rawOpenaiTools (Some ts) = Some (map (openaiToolOf (JObject [])) ts)"
  by (simp add: rawOpenaiTools_def)

lemma openaiToolOf_fields:
  "tool_type (openaiToolOf d t) = ''function''"
  "fn_name (tool_function (openaiToolOf d t)) = name t"
  "description t = Some dsc \<Longrightarrow> fn_description (tool_function (openaiToolOf d t)) = dsc"
  "input_schema t = Some sch \<Longrightarrow> \<not> falsy sch \<Longrightarrow>
     fn_parameters (tool_function (openaiToolOf d t)) = sch"
  by (simp_all add: openaiToolOf_def orEmptyString_def orJson_def)

text \<open>
  C9. A non-empty catalog is reshaped entry by entry, in order: every entry of the
  result has type "function" and carries the declaration's name, its description and its
  input schema as \<open>parameters\<close> (both the LangChain helper and the raw OpenAI service).
  An absent or empty catalog gives no \<open>tools\<close> entry in the call options of any of the
  three services, and no service ever sends an empty tools array.
\<close>

theorem tools_reshaped_or_omitted:
  "(ts \<noteq> [] \<longrightarrow>
      (\<exists>ots rts.
         convertClaudeToolsToOpenAITools (Some ts) = Some ots
         \<and> openaiCallTools (Some ts) = Some ots
         \<and> rawOpenaiTools (Some ts) = Some rts
         \<and> claudeCallTools (Some ts) = Some ts
         \<and> length ots = length ts \<and> length rts = length ts
         \<and> (\<forall>i < length ts.
               tool_type (ots ! i) = ''function'' \<and> tool_type (rts ! i) = ''function''
               \<and> fn_name (tool_function (ots ! i)) = name (ts ! i)
               \<and> fn_name (tool_function (rts ! i)) = name (ts ! i)
               \<and> (\<forall>dsc. description (ts ! i) = Some dsc \<longrightarrow>
                     fn_description (tool_function (ots ! i)) = dsc
                     \<and> fn_description (tool_function (rts ! i)) = dsc)
               \<and> (\<forall>sch. input_schema (ts ! i) = Some sch \<and> \<not> falsy sch \<longrightarrow>
                     fn_parameters (tool_function (ots ! i)) = sch
                     \<and> fn_parameters (tool_function (rts ! i)) = sch))))
   \<and> convertClaudeToolsToOpenAITools None = None
   \<and> convertClaudeToolsToOpenAITools (Some []) = None
   \<and> openaiCallTools None = None \<and> openaiCallTools (Some []) = None
   \<and> claudeCallTools None = None \<and> claudeCallTools (Some []) = None
   \<and> rawOpenaiTools None = None \<and> rawOpenaiTools (Some []) = None
   \<and> openaiCallTools tools \<noteq> Some []
   \<and> claudeCallTools tools \<noteq> Some []
   \<and> rawOpenaiTools tools \<noteq> Some []"
proof -
  have reshape: "ts \<noteq> [] \<longrightarrow>
      (\<exists>ots rts.
         convertClaudeToolsToOpenAITools (Some ts) = Some ots
         \<and> openaiCallTools (Some ts) = Some ots
         \<and> rawOpenaiTools (Some ts) = Some rts
         \<and> claudeCallTools (Some ts) = Some ts
         \<and> length ots = length ts \<and> length rts = length ts
         \<and> (\<forall>i < length ts.
               tool_type (ots ! i) = ''function'' \<and> tool_type (rts ! i) = ''function''
               \<and> fn_name (tool_function (ots ! i)) = name (ts ! i)
               \<and> fn_name (tool_function (rts ! i)) = name (ts ! i)
               \<and> (\<forall>dsc. description (ts ! i) = Some dsc \<longrightarrow>
                     fn_description (tool_function (ots ! i)) = dsc
                     \<and> fn_description (tool_function (rts ! i)) = dsc)
               \<and> (\<forall>sch. input_schema (ts ! i) = Some sch \<and> \<not> falsy sch \<longrightarrow>
                     fn_parameters (tool_function (ots ! i)) = sch
                     \<and> fn_parameters (tool_function (rts ! i)) = sch)))"
  proof
    assume ne: "ts \<noteq> []"
    let ?ots = "map (openaiToolOf defaultParameters) ts"
    let ?rts = "map (openaiToolOf (JObject [])) ts"
    have a: "convertClaudeToolsToOpenAITools (Some ts) = Some ?ots"
      using ne by (rule convertClaudeToolsToOpenAITools_nonempty)
    have b: "openaiCallTools (Some ts) = Some ?ots"
      using a by (simp add: openaiCallTools_def)
    have c: "rawOpenaiTools (Some ts) = Some ?rts"
      using ne by (rule rawOpenaiTools_nonempty)
    have d: "claudeCallTools (Some ts) = Some ts"
      using ne by (simp add: claudeCallTools_def)
    show "\<exists>ots rts.
         convertClaudeToolsToOpenAITools (Some ts) = Some ots
         \<and> openaiCallTools (Some ts) = Some ots
         \<and> rawOpenaiTools (Some ts) = Some rts
         \<and> claudeCallTools (Some ts) = Some ts
         \<and> length ots = length ts \<and> length rts = length ts
         \<and> (\<forall>i < length ts.
               tool_type (ots ! i) = ''function'' \<and> tool_type (rts ! i) = ''function''
               \<and> fn_name (tool_function (ots ! i)) = name (ts ! i)
               \<and> fn_name (tool_function (rts ! i)) = name (ts ! i)
               \<and> (\<forall>dsc. description (ts ! i) = Some dsc \<longrightarrow>
                     fn_description (tool_function (ots ! i)) = dsc
                     \<and> fn_description (tool_function (rts ! i)) = dsc)
               \<and> (\<forall>sch. input_schema (ts ! i) = Some sch \<and> \<not> falsy sch \<longrightarrow>
                     fn_parameters (tool_function (ots ! i)) = sch
                     \<and> fn_parameters (tool_function (rts ! i)) = sch))"
      apply (rule exI [of _ ?ots], rule exI [of _ ?rts])
      using a b c d by (simp add: openaiToolOf_fields)
  qed
  have absent: "convertClaudeToolsToOpenAITools None = None
     \<and> convertClaudeToolsToOpenAITools (Some []) = None
     \<and> openaiCallTools None = None \<and> openaiCallTools (Some []) = None
     \<and> claudeCallTools None = None \<and> claudeCallTools (Some []) = None
     \<and> rawOpenaiTools None = None \<and> rawOpenaiTools (Some []) = None"
    by (simp add: convertClaudeToolsToOpenAITools_def openaiCallTools_def claudeCallTools_def
        rawOpenaiTools_def)
  have never: "openaiCallTools tools \<noteq> Some [] \<and> claudeCallTools tools \<noteq> Some []
     \<and> rawOpenaiTools tools \<noteq> Some []"
    by (auto simp: convertClaudeToolsToOpenAITools_def openaiCallTools_def claudeCallTools_def
        rawOpenaiTools_def split: option.splits if_splits)
  from reshape absent never show ?thesis by blast
qed

theorem tools_reshaped_or_omitted_witness:
  "convertClaudeToolsToOpenAITools
     (Some [\<lparr> name = ''search_shop_catalog'', description = Some ''Search products'',
              input_schema = Some (JObject [(''type'', JString ''object'')]) \<rparr>])
   = Some [\<lparr> tool_type = ''function'',
             tool_function =
               \<lparr> fn_name = ''search_shop_catalog'', fn_description = ''Search products'',
                 fn_parameters = JObject [(''type'', JString ''object'')] \<rparr> \<rparr>]
   \<and> rawOpenaiTools
     (Some [\<lparr> name = ''search_shop_catalog'', description = Some ''Search products'',
              input_schema = Some (JObject [(''type'', JString ''object'')]) \<rparr>])
   = Some [\<lparr> tool_type = ''function'',
             tool_function =
               \<lparr> fn_name = ''search_shop_catalog'', fn_description = ''Search products'',
                 fn_parameters = JObject [(''type'', JString ''object'')] \<rparr> \<rparr>]"
  using tools_reshaped_or_omitted
    [of "[\<lparr> name = ''search_shop_catalog'', description = Some ''Search products'',
            input_schema = Some (JObject [(''type'', JString ''object'')]) \<rparr>]" None]
  by (simp add: convertClaudeToolsToOpenAITools_def rawOpenaiTools_def openaiToolOf_def
      orEmptyString_def orJson_def)

section \<open>Properties: the stream\<close>

lemma dispatchToolUse_foldl:
  "dispatchToolUse h bs w = foldl (\<lambda>w b. runSteps (h b) w) w (filter isToolUse bs)"
  by (induction bs arbitrary: w) simp_all

lemma rawDispatch_foldl:
  "rawDispatch env h tcs w = foldl (\<lambda>w b. runSteps (h b) w) w (toolUseBlocks env tcs)"
  by (induction tcs arbitrary: w) (simp_all split: option.splits)

lemma toolUseBlocks_all_tool_use:
  "filter isToolUse (toolUseBlocks env tcs) = toolUseBlocks env tcs"
  by (induction tcs) (simp_all split: option.splits)

lemma toolUseBlocks_no_text: "filter isText (toolUseBlocks env tcs) = []"
  by (induction tcs) (simp_all split: option.splits)

lemma toolUseBlocks_append:
  "toolUseBlocks env (xs @ ys) = toolUseBlocks env xs @ toolUseBlocks env ys"
  by (induction xs) (simp_all split: option.splits)

lemma parseFailures_append:
  "parseFailures env (xs @ ys) = parseFailures env xs @ parseFailures env ys"
  by (induction xs) (simp_all split: option.splits)

lemma toolUseBlocks_member:
  "t \<in> set tcs \<Longrightarrow> parse env (tc_arguments t) = Some a \<Longrightarrow>
   ToolUse (tc_id t) (tc_name t) a \<in> set (toolUseBlocks env tcs)"
  by (induction tcs) (auto split: option.splits)

lemma rawStep_content:
  "accumulatedContent (rawStep handlers st chunk)
     = accumulatedContent st @ map Text (rawFragments [chunk])"
  by (simp add: rawStep_def split: option.splits list.splits)

lemma rawFragments_Cons:
  "rawFragments (chunk # chunks) = rawFragments [chunk] @ rawFragments chunks"
  by (cases chunk) (simp_all split: option.splits list.splits)

lemma rawLoop_content:
  "accumulatedContent (rawLoop handlers st stream)
     = accumulatedContent st @ map Text (rawFragments stream)"
proof (induction stream arbitrary: st)
  case Nil
  then show ?case by simp
next
  case (Cons chunk chunks)
  show ?case
    by (simp only: rawLoop.simps Cons.IH rawStep_content rawFragments_Cons [of chunk chunks]
        map_append append_assoc)
qed

lemma filter_isText_map_Text: "filter isText (map Text xs) = map Text xs"
  by (induction xs) simp_all

lemma textOfTextBlocks_append:
  "textOfTextBlocks (xs @ ys) = textOfTextBlocks xs @ textOfTextBlocks ys"
  by (induction xs rule: textOfTextBlocks.induct) simp_all

lemma textOfTextBlocks_map_Text: "textOfTextBlocks (map Text xs) = concat xs"
  by (induction xs) simp_all

lemma textOfTextBlocks_toolUseBlocks: "textOfTextBlocks (toolUseBlocks env tcs) = []"
  by (induction tcs) (simp_all split: option.splits)

lemma raw_final_content:
  "final_content (fst (streamConversation_raw env handlers stream w))
     = map Text (rawFragments stream)
         @ toolUseBlocks env (accumulatedToolCalls (rawLoop handlers (rawInit w) stream))"
  by (simp add: streamConversation_raw_def rawFinish_def rawFinalMessage_def Let_def
      rawLoop_content rawInit_def)

lemma isString_eq: "isString c \<Longrightarrow> c = CString (contentString c)"
  by (cases c) simp_all

lemma lcLoop_strings_Some:
  assumes cc: "\<And>a b. isString (chunk_content a) \<Longrightarrow> isString (chunk_content b) \<Longrightarrow>
      chunk_content (concatChunks a b)
        = CString (contentString (chunk_content a) @ contentString (chunk_content b))"
  shows "list_all (\<lambda>c. isString (chunk_content c)) stream \<Longrightarrow>
    aggregatedChunk st = Some a \<Longrightarrow> isString (chunk_content a) \<Longrightarrow>
    \<exists>b. aggregatedChunk (lcLoop concatChunks reasonOf handlers st stream) = Some b
       \<and> chunk_content b
           = CString (contentString (chunk_content a)
                        @ concat (map (\<lambda>c. contentString (chunk_content c)) stream))"
proof (induction stream arbitrary: st a)
  case Nil
  then show ?case by (simp add: isString_eq [symmetric])
next
  case (Cons chunk chunks)
  let ?st = "lcStep concatChunks reasonOf handlers st chunk"
  have s1: "isString (chunk_content chunk)"
    and rest: "list_all (\<lambda>c. isString (chunk_content c)) chunks"
    using Cons.prems(1) by simp_all
  have agg: "aggregatedChunk ?st = Some (concatChunks a chunk)"
    using Cons.prems(2) by (simp add: lcStep_def)
  have cont: "chunk_content (concatChunks a chunk)
      = CString (contentString (chunk_content a) @ contentString (chunk_content chunk))"
    using cc Cons.prems(3) s1 by simp
  have str: "isString (chunk_content (concatChunks a chunk))"
    by (simp add: cont)
  from Cons.IH [OF rest agg str] show ?case
    by (simp add: cont)
qed

lemma lcLoop_strings:
  assumes cc: "\<And>a b. isString (chunk_content a) \<Longrightarrow> isString (chunk_content b) \<Longrightarrow>
      chunk_content (concatChunks a b)
        = CString (contentString (chunk_content a) @ contentString (chunk_content b))"
    and strs: "list_all (\<lambda>c. isString (chunk_content c)) stream"
    and ne: "stream \<noteq> []"
  shows "\<exists>b. aggregatedChunk (lcLoop concatChunks reasonOf handlers (lcInit w) stream) = Some b
       \<and> chunk_content b = CString (concat (map (\<lambda>c. contentString (chunk_content c)) stream))"
proof (cases stream)
  case Nil
  with ne show ?thesis by simp
next
  case (Cons chunk chunks)
  let ?st = "lcStep concatChunks reasonOf handlers (lcInit w) chunk"
  have agg: "aggregatedChunk ?st = Some chunk"
    by (simp add: lcStep_def lcInit_def)
  have s1: "isString (chunk_content chunk)"
    and rest: "list_all (\<lambda>c. isString (chunk_content c)) chunks"
    using strs Cons by simp_all
  from lcLoop_strings_Some [OF cc rest agg s1, of reasonOf handlers] show ?thesis
    using Cons by simp
qed

lemma toolBlocksFrom_no_text: "filter isText (toolBlocksFrom dateNow k tcs) = []"
  by (induction tcs arbitrary: k) (simp_all add: toolBlockOf_def)

lemma convert_text_blocks:
  "filter isText (final_content (convertAIMessageLikeToClaudeMessage dateNow (Some m) r))
     = filter isText (convertContentToClaudeBlocks (chunk_content m))"
  by (simp add: convertAIMessageLikeToClaudeMessage_def Let_def toolBlocksFrom_no_text)

lemma lc_text_block:
  assumes cc: "\<And>a b. isString (chunk_content a) \<Longrightarrow> isString (chunk_content b) \<Longrightarrow>
      chunk_content (concatChunks a b)
        = CString (contentString (chunk_content a) @ contentString (chunk_content b))"
    and strs: "list_all (\<lambda>c. isString (chunk_content c)) stream"
  shows "filter isText (final_content (fst (lcFinish dateNow handlers
            (lcLoop concatChunks reasonOf handlers (lcInit w) stream) r)))
      = (if concat (map (\<lambda>c. contentString (chunk_content c)) stream) = [] then []
         else [Text (concat (map (\<lambda>c. contentString (chunk_content c)) stream))])"
proof (cases "stream = []")
  case True
  then show ?thesis
    by (simp add: lcFinish_def Let_def lcInit_def convert_text_blocks createEmptyAIMessageChunk_def)
next
  case False
  from lcLoop_strings [OF cc strs False, of reasonOf handlers w]
  obtain b
    where b: "aggregatedChunk (lcLoop concatChunks reasonOf handlers (lcInit w) stream) = Some b"
      and c: "chunk_content b = CString (concat (map (\<lambda>c. contentString (chunk_content c)) stream))"
    by blast
  show ?thesis
    by (simp add: lcFinish_def Let_def b c convert_text_blocks)
qed

text \<open>
  C8. A stream that ends with no chunk: each of the three services returns the
  assistant message with an empty content and the stop reason \<open>null\<close>, and the only
  handler that runs is \<open>onMessage\<close>, on that message. The functions are total:
  nothing is raised.
\<close>

theorem empty_stream_finalizes:
  "streamConversation_claude concatChunks dateNow handlers [] w
     = (\<lparr> final_role = Assistant, final_content = [], stop_reason = None \<rparr>,
        callOpt (onMessage handlers)
          \<lparr> final_role = Assistant, final_content = [], stop_reason = None \<rparr> w)
   \<and> streamConversation_openai concatChunks dateNow handlers [] w
     = (\<lparr> final_role = Assistant, final_content = [], stop_reason = None \<rparr>,
        callOpt (onMessage handlers)
          \<lparr> final_role = Assistant, final_content = [], stop_reason = None \<rparr> w)
   \<and> streamConversation_raw env handlers [] w
     = (\<lparr> final_role = Assistant, final_content = [], stop_reason = None \<rparr>,
        callOpt (onMessage handlers)
          \<lparr> final_role = Assistant, final_content = [], stop_reason = None \<rparr> w,
        [])"
  by (simp add: streamConversation_claude_def streamConversation_openai_def
      streamConversation_raw_def lcFinish_def lcInit_def Let_def createEmptyAIMessageChunk_def
      convertAIMessageLikeToClaudeMessage_def mapOpenAiFinishReason_def rawFinish_def
      rawFinalMessage_def rawInit_def split: option.splits)

text \<open>
  C2, as the code has it. The LangChain-based services (Claude and OpenAI) convert the
  aggregated chunk: when the chunks have string contents and \<open>concat\<close> concatenates
  string contents, the final message has no text block when the concatenation of the
  fragments is empty and exactly one text block, holding the concatenation, otherwise.
  The raw OpenAI service keeps one text block per non-empty fragment, in the order of
  arrival; the texts of these blocks concatenate to the whole text received.
\<close>

theorem text_blocks_at_finalize:
  assumes "\<And>a b. isString (chunk_content a) \<Longrightarrow> isString (chunk_content b) \<Longrightarrow>
      chunk_content (concatChunks a b)
        = CString (contentString (chunk_content a) @ contentString (chunk_content b))"
    and "list_all (\<lambda>c. isString (chunk_content c)) stream"
  shows "filter isText
           (final_content (fst (streamConversation_claude concatChunks dateNow handlers stream w)))
         = (if concat (map (\<lambda>c. contentString (chunk_content c)) stream) = [] then []
            else [Text (concat (map (\<lambda>c. contentString (chunk_content c)) stream))])
     \<and> filter isText
           (final_content (fst (streamConversation_openai concatChunks dateNow handlers stream w)))
         = (if concat (map (\<lambda>c. contentString (chunk_content c)) stream) = [] then []
            else [Text (concat (map (\<lambda>c. contentString (chunk_content c)) stream))])
     \<and> filter isText
           (final_content (fst (streamConversation_raw env rawHandlers rawStream rw)))
         = map Text (rawFragments rawStream)
     \<and> textOfTextBlocks
           (final_content (fst (streamConversation_raw env rawHandlers rawStream rw)))
         = concat (rawFragments rawStream)"
proof -
  have claude: "filter isText
           (final_content (fst (streamConversation_claude concatChunks dateNow handlers stream w)))
         = (if concat (map (\<lambda>c. contentString (chunk_content c)) stream) = [] then []
            else [Text (concat (map (\<lambda>c. contentString (chunk_content c)) stream))])"
    unfolding streamConversation_claude_def Let_def
    by (rule lc_text_block [OF assms])
  have openai: "filter isText
           (final_content (fst (streamConversation_openai concatChunks dateNow handlers stream w)))
         = (if concat (map (\<lambda>c. contentString (chunk_content c)) stream) = [] then []
            else [Text (concat (map (\<lambda>c. contentString (chunk_content c)) stream))])"
    unfolding streamConversation_openai_def Let_def
    by (rule lc_text_block [OF assms])
  have raw1: "filter isText
           (final_content (fst (streamConversation_raw env rawHandlers rawStream rw)))
         = map Text (rawFragments rawStream)"
    by (simp add: raw_final_content filter_isText_map_Text toolUseBlocks_no_text)
  have raw2: "textOfTextBlocks
           (final_content (fst (streamConversation_raw env rawHandlers rawStream rw)))
         = concat (rawFragments rawStream)"
    by (simp add: raw_final_content textOfTextBlocks_append textOfTextBlocks_map_Text
        textOfTextBlocks_toolUseBlocks)
  from claude openai raw1 raw2 show ?thesis by blast
qed

theorem text_blocks_at_finalize_witness:
  "filter isText
     (final_content (fst (streamConversation_claude concatStrings (\<lambda>k. 0) noHandlers
        [stringChunk ''Hel'', stringChunk ''lo''] ())))
   = [Text ''Hello'']"
proof -
  have cc: "\<And>a b. isString (chunk_content a) \<Longrightarrow> isString (chunk_content b) \<Longrightarrow>
      chunk_content (concatStrings a b)
        = CString (contentString (chunk_content a) @ contentString (chunk_content b))"
    by (simp add: concatStrings_def)
  have strs: "list_all (\<lambda>c. isString (chunk_content c)) [stringChunk ''Hel'', stringChunk ''lo'']"
    by (simp add: stringChunk_def)
  from text_blocks_at_finalize [OF cc strs, THEN conjunct1, of "\<lambda>k. 0" noHandlers "()"]
  show ?thesis by (simp add: stringChunk_def)
qed

text \<open>
  C2 as stated fails on the raw OpenAI service: the fragments "Hel" and "lo" followed by
  the finish reason "stop" give a final message with two text blocks.
\<close>

theorem raw_stream_one_block_per_fragment:
  "final_content (fst (streamConversation_raw sampleJs noHandlers
     [textChunk ''Hel'' None, textChunk ''lo'' (Some ''stop'')] ()))
   = [Text ''Hel'', Text ''lo'']"
  by (simp add: streamConversation_raw_def rawFinish_def rawFinalMessage_def rawInit_def
      rawStep_def textChunk_def noHandlers_def callOpt_def rawStopReason_def)

lemma toolUseIds_toolUseBlocks:
  "toolUseIds (toolUseBlocks env tcs) = map tc_id (filter (parses env) tcs)"
  by (induction tcs) (simp_all add: parses_def split: option.splits)

lemma toolUseIds_append: "toolUseIds (xs @ ys) = toolUseIds xs @ toolUseIds ys"
  by (induction xs rule: toolUseIds.induct) simp_all

lemma toolUseIds_map_Text: "toolUseIds (map Text xs) = []"
  by (induction xs) simp_all

lemma filter_isToolUse_map_Text: "filter isToolUse (map Text xs) = []"
  by (induction xs) simp_all

lemma raw_tool_use_blocks:
  "filter isToolUse (final_content (fst (streamConversation_raw env handlers stream w)))
     = toolUseBlocks env (accumulatedToolCalls (rawLoop handlers (rawInit w) stream))"
  by (simp add: raw_final_content filter_isToolUse_map_Text toolUseBlocks_all_tool_use)

lemma raw_world_after:
  "fst (snd (streamConversation_raw env handlers stream w))
     = callOpt (onMessage handlers) (fst (streamConversation_raw env handlers stream w))
         (case onToolUse handlers of
            None \<Rightarrow> raw_world (rawLoop handlers (rawInit w) stream)
          | Some h \<Rightarrow>
              awaitEach h (toolUseBlocks env (accumulatedToolCalls (rawLoop handlers (rawInit w) stream)))
                (raw_world (rawLoop handlers (rawInit w) stream)))"
  by (simp add: streamConversation_raw_def rawFinish_def Let_def rawDispatch_foldl awaitEach_def
      split: option.splits)

lemma raw_console:
  "set (parseFailures env (accumulatedToolCalls (rawLoop handlers (rawInit w) stream)))
     \<subseteq> set (snd (snd (streamConversation_raw env handlers stream w)))"
  by (simp add: streamConversation_raw_def rawFinish_def Let_def)

text \<open>
  C4. When the argument text of one accumulated tool call does not parse, the raw OpenAI
  service still returns its final message: the content is the text blocks followed by the
  \<open>tool_use\<close> blocks of the tool calls before and after the failing one, as if that call
  had never been accumulated; the failing argument text is written to the console; every
  other tool call whose argument text parses has its block in the final message; and a
  supplied \<open>onToolUse\<close> is awaited on exactly those blocks, in order, before
  \<open>onMessage\<close> runs.
\<close>

theorem parse_failure_drops_one_invocation:
  assumes "parse env (tc_arguments bad) = None"
    and "accumulatedToolCalls (rawLoop handlers (rawInit w) stream) = pre @ bad # post"
  shows "final_content (fst (streamConversation_raw env handlers stream w))
           = map Text (rawFragments stream) @ toolUseBlocks env pre @ toolUseBlocks env post
     \<and> final_role (fst (streamConversation_raw env handlers stream w)) = Assistant
     \<and> tc_arguments bad \<in> set (snd (snd (streamConversation_raw env handlers stream w)))
     \<and> (\<forall>t a. t \<in> set (pre @ post) \<and> parse env (tc_arguments t) = Some a \<longrightarrow>
           ToolUse (tc_id t) (tc_name t) a
             \<in> set (final_content (fst (streamConversation_raw env handlers stream w))))
     \<and> (\<forall>h. onToolUse handlers = Some h \<longrightarrow>
           fst (snd (streamConversation_raw env handlers stream w))
             = callOpt (onMessage handlers) (fst (streamConversation_raw env handlers stream w))
                 (awaitEach h (toolUseBlocks env pre @ toolUseBlocks env post)
                    (raw_world (rawLoop handlers (rawInit w) stream))))"
proof -
  let ?acc = "accumulatedToolCalls (rawLoop handlers (rawInit w) stream)"
  have blocks: "toolUseBlocks env ?acc = toolUseBlocks env pre @ toolUseBlocks env post"
    using assms by (simp add: toolUseBlocks_append)
  have c1: "final_content (fst (streamConversation_raw env handlers stream w))
           = map Text (rawFragments stream) @ toolUseBlocks env pre @ toolUseBlocks env post"
    by (simp add: raw_final_content blocks)
  have c2: "final_role (fst (streamConversation_raw env handlers stream w)) = Assistant"
    by (simp add: streamConversation_raw_def rawFinish_def rawFinalMessage_def Let_def)
  have "tc_arguments bad \<in> set (parseFailures env ?acc)"
    using assms by (simp add: parseFailures_append)
  then have c3: "tc_arguments bad \<in> set (snd (snd (streamConversation_raw env handlers stream w)))"
    using raw_console [of env handlers w stream] by blast
  have c4: "\<forall>t a. t \<in> set (pre @ post) \<and> parse env (tc_arguments t) = Some a \<longrightarrow>
           ToolUse (tc_id t) (tc_name t) a
             \<in> set (final_content (fst (streamConversation_raw env handlers stream w)))"
  proof (intro allI impI)
    fix t a
    assume ta: "t \<in> set (pre @ post) \<and> parse env (tc_arguments t) = Some a"
    then have "ToolUse (tc_id t) (tc_name t) a \<in> set (toolUseBlocks env (pre @ post))"
      by (blast intro: toolUseBlocks_member)
    then show "ToolUse (tc_id t) (tc_name t) a
             \<in> set (final_content (fst (streamConversation_raw env handlers stream w)))"
      by (simp add: c1 toolUseBlocks_append)
  qed
  have c5: "\<forall>h. onToolUse handlers = Some h \<longrightarrow>
           fst (snd (streamConversation_raw env handlers stream w))
             = callOpt (onMessage handlers) (fst (streamConversation_raw env handlers stream w))
                 (awaitEach h (toolUseBlocks env pre @ toolUseBlocks env post)
                    (raw_world (rawLoop handlers (rawInit w) stream)))"
    by (simp add: raw_world_after [of env handlers stream w] blocks)
  from c1 c2 c3 c4 c5 show ?thesis by blast
qed

theorem parse_failure_drops_one_invocation_witness:
  \<open>streamConversation_raw sampleJs noHandlers
     [toolChunk [\<lparr> delta_index = 0, delta_id = Some ''call_a'', delta_name = Some ''search'',
                   delta_arguments = Some ''{"q":'' \<rparr>] None,
      toolChunk [\<lparr> delta_index = 1, delta_id = Some ''call_b'', delta_name = Some ''get_cart'',
                   delta_arguments = Some ''{}'' \<rparr>] (Some ''tool_calls'')] ()
   = (\<lparr> final_role = Assistant,
        final_content = [ToolUse ''call_b'' ''get_cart'' (JObject [])],
        stop_reason = None \<rparr>,
      (),
      [''{"q":''])\<close>
proof -
  let ?bad = \<open>\<lparr> tc_id = ''call_a'', tc_type = ''function'', tc_name = ''search'',
                tc_arguments = ''{"q":'' \<rparr>\<close>
  let ?good = \<open>\<lparr> tc_id = ''call_b'', tc_type = ''function'', tc_name = ''get_cart'',
                 tc_arguments = ''{}'' \<rparr>\<close>
  let ?stream = \<open>[toolChunk [\<lparr> delta_index = 0, delta_id = Some ''call_a'',
                     delta_name = Some ''search'', delta_arguments = Some ''{"q":'' \<rparr>] None,
      toolChunk [\<lparr> delta_index = 1, delta_id = Some ''call_b'', delta_name = Some ''get_cart'',
                   delta_arguments = Some ''{}'' \<rparr>] (Some ''tool_calls'')]\<close>
  have h1: "parse sampleJs (tc_arguments ?bad) = None"
    by (simp add: sampleJs_def)
  have h2: "accumulatedToolCalls (rawLoop noHandlers (rawInit ()) ?stream) = [] @ ?bad # [?good]"
    by (simp add: rawInit_def rawStep_def toolChunk_def applyToolCallDelta_def orEmpty_def)
  from parse_failure_drops_one_invocation [OF h1 h2]
  have "final_content (fst (streamConversation_raw sampleJs noHandlers ?stream ()))
      = map Text (rawFragments ?stream) @ toolUseBlocks sampleJs [] @ toolUseBlocks sampleJs [?good]"
    by blast
  then show ?thesis
    by (simp add: streamConversation_raw_def rawFinish_def rawFinalMessage_def Let_def h2
        sampleJs_def noHandlers_def callOpt_def rawInit_def rawStep_def toolChunk_def
        rawStopReason_def applyToolCallDelta_def orEmpty_def)
qed

lemma applyToolCallDeltas_append:
  "applyToolCallDeltas acc (xs @ ys) = applyToolCallDeltas (applyToolCallDeltas acc xs) ys"
  by (induction xs arbitrary: acc) simp_all

lemma rawStep_calls:
  "accumulatedToolCalls (rawStep handlers st chunk)
     = applyToolCallDeltas (accumulatedToolCalls st) (deltasOf [chunk])"
  by (simp add: rawStep_def split: option.splits list.splits)

lemma deltasOf_Cons: "deltasOf (chunk # chunks) = deltasOf [chunk] @ deltasOf chunks"
  by (cases chunk) simp_all

lemma rawLoop_calls:
  "accumulatedToolCalls (rawLoop handlers st stream)
     = applyToolCallDeltas (accumulatedToolCalls st) (deltasOf stream)"
proof (induction stream arbitrary: st)
  case Nil
  then show ?case by simp
next
  case (Cons chunk chunks)
  show ?case
    by (simp only: rawLoop.simps Cons.IH rawStep_calls deltasOf_Cons [of chunk chunks]
        applyToolCallDeltas_append)
qed

lemma slotOf_snoc_other:
  "delta_index d \<noteq> k \<Longrightarrow> slotOf (pre @ [d]) k = slotOf pre k"
  by (simp add: slotOf_def)

lemma slotOf_snoc_new:
  "\<forall>d' \<in> set pre. delta_index d' \<noteq> delta_index d \<Longrightarrow>
   slotOf (pre @ [d]) (delta_index d)
     = \<lparr> tc_id = orEmpty (delta_id d), tc_type = ''function'',
         tc_name = orEmpty (delta_name d), tc_arguments = orEmpty (delta_arguments d) \<rparr>"
proof -
  assume "\<forall>d' \<in> set pre. delta_index d' \<noteq> delta_index d"
  then have "filter (\<lambda>d'. delta_index d' = delta_index d) pre = []"
    by (simp add: filter_empty_conv)
  then show ?thesis by (simp add: slotOf_def)
qed

lemma slotOf_snoc_old:
  "\<exists>d' \<in> set pre. delta_index d' = delta_index d \<Longrightarrow>
   slotOf (pre @ [d]) (delta_index d)
     = (slotOf pre (delta_index d))
         \<lparr> tc_name := tc_name (slotOf pre (delta_index d)) @ orEmpty (delta_name d),
           tc_arguments := tc_arguments (slotOf pre (delta_index d)) @ orEmpty (delta_arguments d) \<rparr>"
proof -
  assume "\<exists>d' \<in> set pre. delta_index d' = delta_index d"
  then have "filter (\<lambda>d'. delta_index d' = delta_index d) pre \<noteq> []"
    by (simp add: filter_empty_conv)
  then obtain x xs where "filter (\<lambda>d'. delta_index d' = delta_index d) pre = x # xs"
    by (cases "filter (\<lambda>d'. delta_index d' = delta_index d) pre") auto
  then show ?thesis by (simp add: slotOf_def)
qed

lemma slotsInv_step:
  assumes inv: "slotsInv n pre acc" and le: "delta_index d \<le> n"
  shows "slotsInv (if delta_index d = n then Suc n else n) (pre @ [d]) (applyToolCallDelta acc d)"
proof (cases "delta_index d = n")
  case True
  have acc: "acc = map (slotOf pre) [0..<n]" and lt: "\<forall>d' \<in> set pre. delta_index d' < n"
    and ex: "\<forall>k < n. \<exists>d' \<in> set pre. delta_index d' = k"
    using inv by (simp_all add: slotsInv_def)
  have len: "length acc = n" by (simp add: acc)
  have fresh: "\<forall>d' \<in> set pre. delta_index d' \<noteq> delta_index d"
    using lt True by auto
  have old: "map (slotOf (pre @ [d])) [0..<n] = map (slotOf pre) [0..<n]"
    using True by (auto simp: slotOf_snoc_other)
  have "applyToolCallDelta acc d = acc @ [slotOf (pre @ [d]) n]"
    using True len slotOf_snoc_new [OF fresh] by (simp add: applyToolCallDelta_def Let_def)
  then have a: "applyToolCallDelta acc d = map (slotOf (pre @ [d])) [0..<Suc n]"
    by (simp add: old acc)
  have b: "\<forall>d' \<in> set (pre @ [d]). delta_index d' < Suc n"
    using lt True by auto
  have c: "\<forall>k < Suc n. \<exists>d' \<in> set (pre @ [d]). delta_index d' = k"
    using ex True by (auto simp: less_Suc_eq)
  show ?thesis using True a b c by (simp add: slotsInv_def)
next
  case False
  then have lt': "delta_index d < n" using le by simp
  have acc: "acc = map (slotOf pre) [0..<n]" and lt: "\<forall>d' \<in> set pre. delta_index d' < n"
    and ex: "\<forall>k < n. \<exists>d' \<in> set pre. delta_index d' = k"
    using inv by (simp_all add: slotsInv_def)
  have len: "length acc = n" by (simp add: acc)
  have nth: "acc ! delta_index d = slotOf pre (delta_index d)"
    using lt' by (simp add: acc)
  have seen: "\<exists>d' \<in> set pre. delta_index d' = delta_index d"
    using ex lt' by blast
  have upd: "applyToolCallDelta acc d = acc[delta_index d := slotOf (pre @ [d]) (delta_index d)]"
    using lt' len nth slotOf_snoc_old [OF seen] by (simp add: applyToolCallDelta_def Let_def)
  have a: "applyToolCallDelta acc d = map (slotOf (pre @ [d])) [0..<n]"
  proof (rule nth_equalityI)
    show "length (applyToolCallDelta acc d) = length (map (slotOf (pre @ [d])) [0..<n])"
      by (simp add: upd len)
  next
    fix i assume "i < length (applyToolCallDelta acc d)"
    then have i: "i < n" by (simp add: upd len)
    show "applyToolCallDelta acc d ! i = map (slotOf (pre @ [d])) [0..<n] ! i"
    proof (cases "i = delta_index d")
      case True
      then show ?thesis using i by (simp add: upd len)
    next
      case False
      then have s: "slotOf (pre @ [d]) i = slotOf pre i" by (simp add: slotOf_snoc_other)
      have "applyToolCallDelta acc d ! i = acc ! i"
        using False by (simp add: upd)
      also have "acc ! i = slotOf pre i"
        using i by (simp add: acc)
      finally show ?thesis using i s by simp
    qed
  qed
  have b: "\<forall>d' \<in> set (pre @ [d]). delta_index d' < n"
    using lt lt' by auto
  have c: "\<forall>k < n. \<exists>d' \<in> set (pre @ [d]). delta_index d' = k"
    using ex by auto
  show ?thesis using False a b c by (simp add: slotsInv_def)
qed

lemma slotsInv_deltas:
  "slotsInv n pre acc \<Longrightarrow> arriveInOrder n ds \<Longrightarrow>
   \<exists>n'. slotsInv n' (pre @ ds) (applyToolCallDeltas acc ds)"
proof (induction ds arbitrary: n pre acc)
  case Nil
  then show ?case by auto
next
  case (Cons d ds)
  let ?n = "if delta_index d = n then Suc n else n"
  from Cons.prems have le: "delta_index d \<le> n" and rest: "arriveInOrder ?n ds" by simp_all
  have "slotsInv ?n (pre @ [d]) (applyToolCallDelta acc d)"
    using Cons.prems(1) le by (rule slotsInv_step)
  from Cons.IH [OF this rest] show ?case by simp
qed

lemma slots_in_index_order:
  assumes "arriveInOrder 0 ds"
  shows "applyToolCallDeltas [] ds = map (slotOf ds) [0..<length (applyToolCallDeltas [] ds)]
     \<and> list_all (\<lambda>d. delta_index d < length (applyToolCallDeltas [] ds)) ds"
proof -
  have "slotsInv 0 [] []" by (simp add: slotsInv_def)
  from slotsInv_deltas [OF this assms]
  obtain n where n: "slotsInv n ds (applyToolCallDeltas [] ds)" by auto
  then have "length (applyToolCallDeltas [] ds) = n" by (simp add: slotsInv_def)
  with n show ?thesis by (auto simp: slotsInv_def list_all_iff)
qed

lemma runSteps_append: "runSteps (xs @ ys) v = runSteps ys (runSteps xs v)"
  by (induction xs arbitrary: v) simp_all

lemma awaitEach_concat: "awaitEach h bs w = runSteps (concat (map h bs)) w"
  by (induction bs arbitrary: w) (simp_all add: awaitEach_def runSteps_append)

text \<open>
  C5, as the code has it. With \<open>onToolUse\<close> supplied, each service awaits it on the
  \<open>tool_use\<close> blocks of the final message, once per block and in the order of the
  content: the steps that run are the steps of the handler on the first block, then
  those on the second, and so on, with no step of one call between two steps of
  another. The LangChain-based services do so after \<open>onMessage\<close>, the raw OpenAI
  service before it. In the raw service the blocks stand in the order of the slots of
  \<open>accumulatedToolCalls\<close>. When the tool-call deltas arrive in order, slot \<open>k\<close> is
  assembled from exactly the deltas of index \<open>k\<close> and every index is a slot, so the
  dispatch goes by ascending index. A delta that opens a slot under a larger index is
  pushed at the end all the same: the order is then the order of arrival.
\<close>

theorem tool_use_dispatch_in_order:
  "snd (streamConversation_claude concatChunks dateNow (handlers\<lparr>onToolUse := Some h\<rparr>) stream w)
     = awaitEach h
         (filter isToolUse (final_content
            (fst (streamConversation_claude concatChunks dateNow
                    (handlers\<lparr>onToolUse := Some h\<rparr>) stream w))))
         (callOpt (onMessage handlers)
            (fst (streamConversation_claude concatChunks dateNow
                    (handlers\<lparr>onToolUse := Some h\<rparr>) stream w))
            (lc_world (lcLoop concatChunks kw_stop_reason (handlers\<lparr>onToolUse := Some h\<rparr>)
                         (lcInit w) stream)))
   \<and> snd (streamConversation_openai concatChunks dateNow (handlers\<lparr>onToolUse := Some h\<rparr>) stream w)
     = awaitEach h
         (filter isToolUse (final_content
            (fst (streamConversation_openai concatChunks dateNow
                    (handlers\<lparr>onToolUse := Some h\<rparr>) stream w))))
         (callOpt (onMessage handlers)
            (fst (streamConversation_openai concatChunks dateNow
                    (handlers\<lparr>onToolUse := Some h\<rparr>) stream w))
            (lc_world (lcLoop concatChunks md_finish_reason (handlers\<lparr>onToolUse := Some h\<rparr>)
                         (lcInit w) stream)))
   \<and> fst (snd (streamConversation_raw env (handlers\<lparr>onToolUse := Some h\<rparr>) rawStream w))
     = callOpt (onMessage handlers)
         (fst (streamConversation_raw env (handlers\<lparr>onToolUse := Some h\<rparr>) rawStream w))
         (awaitEach h
            (filter isToolUse (final_content
               (fst (streamConversation_raw env (handlers\<lparr>onToolUse := Some h\<rparr>) rawStream w))))
            (raw_world (rawLoop (handlers\<lparr>onToolUse := Some h\<rparr>) (rawInit w) rawStream)))
   \<and> toolUseIds (final_content
         (fst (streamConversation_raw env (handlers\<lparr>onToolUse := Some h\<rparr>) rawStream w)))
     = map tc_id (filter (parses env)
         (accumulatedToolCalls (rawLoop (handlers\<lparr>onToolUse := Some h\<rparr>) (rawInit w) rawStream)))
   \<and> awaitEach h bs w' = runSteps (concat (map h bs)) w'
   \<and> (arriveInOrder 0 (deltasOf rawStream) \<longrightarrow>
        accumulatedToolCalls (rawLoop (handlers\<lparr>onToolUse := Some h\<rparr>) (rawInit w) rawStream)
          = map (slotOf (deltasOf rawStream))
              [0..<length (accumulatedToolCalls
                 (rawLoop (handlers\<lparr>onToolUse := Some h\<rparr>) (rawInit w) rawStream))]
        \<and> list_all
            (\<lambda>d. delta_index d
                   < length (accumulatedToolCalls
                       (rawLoop (handlers\<lparr>onToolUse := Some h\<rparr>) (rawInit w) rawStream)))
            (deltasOf rawStream))"
proof -
  have lc: "\<And>st r. snd (lcFinish dateNow (handlers\<lparr>onToolUse := Some h\<rparr>) st r)
      = awaitEach h
          (filter isToolUse
             (final_content (fst (lcFinish dateNow (handlers\<lparr>onToolUse := Some h\<rparr>) st r))))
          (callOpt (onMessage handlers)
             (fst (lcFinish dateNow (handlers\<lparr>onToolUse := Some h\<rparr>) st r)) (lc_world st))"
    by (simp add: lcFinish_def Let_def dispatchToolUse_foldl awaitEach_def)
  have claude: "snd (streamConversation_claude concatChunks dateNow (handlers\<lparr>onToolUse := Some h\<rparr>) stream w)
     = awaitEach h
         (filter isToolUse (final_content
            (fst (streamConversation_claude concatChunks dateNow
                    (handlers\<lparr>onToolUse := Some h\<rparr>) stream w))))
         (callOpt (onMessage handlers)
            (fst (streamConversation_claude concatChunks dateNow
                    (handlers\<lparr>onToolUse := Some h\<rparr>) stream w))
            (lc_world (lcLoop concatChunks kw_stop_reason (handlers\<lparr>onToolUse := Some h\<rparr>)
                         (lcInit w) stream)))"
    unfolding streamConversation_claude_def Let_def by (rule lc)
  have openai: "snd (streamConversation_openai concatChunks dateNow (handlers\<lparr>onToolUse := Some h\<rparr>) stream w)
     = awaitEach h
         (filter isToolUse (final_content
            (fst (streamConversation_openai concatChunks dateNow
                    (handlers\<lparr>onToolUse := Some h\<rparr>) stream w))))
         (callOpt (onMessage handlers)
            (fst (streamConversation_openai concatChunks dateNow
                    (handlers\<lparr>onToolUse := Some h\<rparr>) stream w))
            (lc_world (lcLoop concatChunks md_finish_reason (handlers\<lparr>onToolUse := Some h\<rparr>)
                         (lcInit w) stream)))"
    unfolding streamConversation_openai_def Let_def by (rule lc)
  have raw: "fst (snd (streamConversation_raw env (handlers\<lparr>onToolUse := Some h\<rparr>) rawStream w))
     = callOpt (onMessage handlers)
         (fst (streamConversation_raw env (handlers\<lparr>onToolUse := Some h\<rparr>) rawStream w))
         (awaitEach h
            (filter isToolUse (final_content
               (fst (streamConversation_raw env (handlers\<lparr>onToolUse := Some h\<rparr>) rawStream w))))
            (raw_world (rawLoop (handlers\<lparr>onToolUse := Some h\<rparr>) (rawInit w) rawStream)))"
    by (simp add: raw_world_after [of env "handlers\<lparr>onToolUse := Some h\<rparr>" rawStream w]
        raw_tool_use_blocks)
  have ids: "toolUseIds (final_content
         (fst (streamConversation_raw env (handlers\<lparr>onToolUse := Some h\<rparr>) rawStream w)))
     = map tc_id (filter (parses env)
         (accumulatedToolCalls (rawLoop (handlers\<lparr>onToolUse := Some h\<rparr>) (rawInit w) rawStream)))"
    by (simp add: raw_final_content toolUseIds_append toolUseIds_map_Text toolUseIds_toolUseBlocks)
  have steps: "awaitEach h bs w' = runSteps (concat (map h bs)) w'"
    by (rule awaitEach_concat)
  have slots: "arriveInOrder 0 (deltasOf rawStream) \<longrightarrow>
        accumulatedToolCalls (rawLoop (handlers\<lparr>onToolUse := Some h\<rparr>) (rawInit w) rawStream)
          = map (slotOf (deltasOf rawStream))
              [0..<length (accumulatedToolCalls
                 (rawLoop (handlers\<lparr>onToolUse := Some h\<rparr>) (rawInit w) rawStream))]
        \<and> list_all
            (\<lambda>d. delta_index d
                   < length (accumulatedToolCalls
                       (rawLoop (handlers\<lparr>onToolUse := Some h\<rparr>) (rawInit w) rawStream)))
            (deltasOf rawStream)"
    using slots_in_index_order [of "deltasOf rawStream"]
    by (simp add: rawLoop_calls rawInit_def)
  from claude openai raw ids steps slots show ?thesis by blast
qed


theorem tool_use_dispatch_in_order_witness:
  \<open>fst (snd (streamConversation_raw sampleJs
       (\<lparr> onText = None, onContentBlock = None, onMessage = None, onToolUse = None \<rparr>
          \<lparr> onToolUse := Some traceToolUse \<rparr>)
       [toolChunk [\<lparr> delta_index = 0, delta_id = Some ''call_a'', delta_name = Some ''search'',
                     delta_arguments = None \<rparr>] None,
        toolChunk [\<lparr> delta_index = 0, delta_id = None, delta_name = None,
                     delta_arguments = Some ''{"q":'' \<rparr>] None,
        toolChunk [\<lparr> delta_index = 1, delta_id = Some ''call_b'', delta_name = Some ''get_cart'',
                     delta_arguments = Some ''{}'' \<rparr>,
                   \<lparr> delta_index = 0, delta_id = None, delta_name = None,
                     delta_arguments = Some ''"ball"}'' \<rparr>] (Some ''tool_calls'')]
       []))
   = [Started (ToolUse ''call_a'' ''search'' (JObject [(''q'', JString ''ball'')])),
      Finished (ToolUse ''call_a'' ''search'' (JObject [(''q'', JString ''ball'')])),
      Started (ToolUse ''call_b'' ''get_cart'' (JObject [])),
      Finished (ToolUse ''call_b'' ''get_cart'' (JObject []))]
   \<and> snd (streamConversation_claude concatStrings (\<lambda>k. 0)
        (\<lparr> onText = None, onContentBlock = None, onMessage = None, onToolUse = None \<rparr>
           \<lparr> onToolUse := Some traceToolUse \<rparr>)
        [messageLike (CString ''Checking'')
           [toolCall ''call_1'' ''search'', toolCall ''call_2'' ''get_cart'']]
        [])
   = [Started (ToolUse ''call_1'' ''search'' (JObject [])),
      Finished (ToolUse ''call_1'' ''search'' (JObject [])),
      Started (ToolUse ''call_2'' ''get_cart'' (JObject [])),
      Finished (ToolUse ''call_2'' ''get_cart'' (JObject []))]\<close>
proof -
  let ?stream = \<open>[toolChunk [\<lparr> delta_index = 0, delta_id = Some ''call_a'',
                     delta_name = Some ''search'', delta_arguments = None \<rparr>] None,
        toolChunk [\<lparr> delta_index = 0, delta_id = None, delta_name = None,
                     delta_arguments = Some ''{"q":'' \<rparr>] None,
        toolChunk [\<lparr> delta_index = 1, delta_id = Some ''call_b'', delta_name = Some ''get_cart'',
                     delta_arguments = Some ''{}'' \<rparr>,
                   \<lparr> delta_index = 0, delta_id = None, delta_name = None,
                     delta_arguments = Some ''"ball"}'' \<rparr>] (Some ''tool_calls'')]\<close>
  have inOrder: "arriveInOrder 0 (deltasOf ?stream)"
    by (simp add: toolChunk_def)
  from inOrder tool_use_dispatch_in_order
      [where handlers = "\<lparr> onText = None, onContentBlock = None, onMessage = None,
                           onToolUse = None \<rparr>"
         and h = traceToolUse and env = sampleJs and w = "[]"
         and stream = "[messageLike (CString ''Checking'')
                          [toolCall ''call_1'' ''search'', toolCall ''call_2'' ''get_cart'']]"
         and concatChunks = concatStrings and dateNow = "\<lambda>k. 0" and rawStream = ?stream
         and bs = "[]" and w' = "[]"]
  have slots: "list_all
      (\<lambda>d. delta_index d
             < length (accumulatedToolCalls
                 (rawLoop (\<lparr> onText = None, onContentBlock = None, onMessage = None,
                             onToolUse = None \<rparr> \<lparr> onToolUse := Some traceToolUse \<rparr>)
                    (rawInit []) ?stream)))
      (deltasOf ?stream)"
    by blast
  have raw: "fst (snd (streamConversation_raw sampleJs
       (\<lparr> onText = None, onContentBlock = None, onMessage = None, onToolUse = None \<rparr>
          \<lparr> onToolUse := Some traceToolUse \<rparr>) ?stream []))
   = [Started (ToolUse ''call_a'' ''search'' (JObject [(''q'', JString ''ball'')])),
      Finished (ToolUse ''call_a'' ''search'' (JObject [(''q'', JString ''ball'')])),
      Started (ToolUse ''call_b'' ''get_cart'' (JObject [])),
      Finished (ToolUse ''call_b'' ''get_cart'' (JObject []))]"
    by (simp add: streamConversation_raw_def rawFinish_def rawFinalMessage_def Let_def
        sampleJs_def callOpt_def rawInit_def rawStep_def toolChunk_def rawStopReason_def
        applyToolCallDelta_def orEmpty_def traceToolUse_def)
  have claude: "snd (streamConversation_claude concatStrings (\<lambda>k. 0)
        (\<lparr> onText = None, onContentBlock = None, onMessage = None, onToolUse = None \<rparr>
           \<lparr> onToolUse := Some traceToolUse \<rparr>)
        [messageLike (CString ''Checking'')
           [toolCall ''call_1'' ''search'', toolCall ''call_2'' ''get_cart'']]
        [])
   = [Started (ToolUse ''call_1'' ''search'' (JObject [])),
      Finished (ToolUse ''call_1'' ''search'' (JObject [])),
      Started (ToolUse ''call_2'' ''get_cart'' (JObject [])),
      Finished (ToolUse ''call_2'' ''get_cart'' (JObject []))]"
    by (simp add: streamConversation_claude_def lcFinish_def lcInit_def lcStep_def Let_def
        callOpt_def convertAIMessageLikeToClaudeMessage_def messageLike_def toolCall_def
        hasId_def toolBlockOf_def extractTextDeltaFromChunk_def traceToolUse_def)
  from slots raw claude show ?thesis by simp
qed

text \<open>
  C5 as stated fails on the raw OpenAI service when the indices do not arrive in order:
  below, the tool call of index 3 arrives before the one of index 1, and it is
  dispatched first.
\<close>

theorem dispatch_follows_arrival_not_index:
  "fst (snd (streamConversation_raw sampleJs
       (\<lparr> onText = None, onContentBlock = None, onMessage = None, onToolUse = None \<rparr>
          \<lparr> onToolUse := Some traceToolUse \<rparr>)
       [toolChunk [\<lparr> delta_index = 3, delta_id = Some ''call_c'', delta_name = Some ''search'',
                     delta_arguments = Some ''{}'' \<rparr>,
                   \<lparr> delta_index = 1, delta_id = Some ''call_d'', delta_name = Some ''get_cart'',
                     delta_arguments = Some ''{}'' \<rparr>] (Some ''tool_calls'')]
       []))
   = [Started (ToolUse ''call_c'' ''search'' (JObject [])),
      Finished (ToolUse ''call_c'' ''search'' (JObject [])),
      Started (ToolUse ''call_d'' ''get_cart'' (JObject [])),
      Finished (ToolUse ''call_d'' ''get_cart'' (JObject []))]"
  by (simp add: streamConversation_raw_def rawFinish_def rawFinalMessage_def Let_def
      sampleJs_def callOpt_def rawInit_def rawStep_def toolChunk_def rawStopReason_def
      applyToolCallDelta_def orEmpty_def traceToolUse_def)

section \<open>Properties: the system instruction of the LangChain messages\<close>

lemma splitToolResults_appends:
  "\<exists>ys. splitToolResults env acc bs = acc @ ys \<and> filter isSystemMessage ys = []"
proof (induction env acc bs rule: splitToolResults.induct)
  case (1 env lcMessages)
  then show ?case by simp
next
  case (2 env lcMessages u c bs)
  then obtain ys where "splitToolResults env
       (lcMessages @
          [ToolMessage (serializeToolResultContent env c)
             (toolCallIdOr (Some u) None (length lcMessages))]) bs
     = (lcMessages @
          [ToolMessage (serializeToolResultContent env c)
             (toolCallIdOr (Some u) None (length lcMessages))]) @ ys"
     and "filter isSystemMessage ys = []"
    by blast
  then show ?case by simp
qed simp_all

lemma pushMessage_appends:
  "\<exists>ys. pushMessage env acc m = acc @ ys \<and> filter isSystemMessage ys = []"
proof (cases "role m")
  case User
  show ?thesis
  proof (cases "isToolResultContent (content m)")
    case True
    then obtain bs where "content m = CBlocks bs" by (cases "content m") simp_all
    with True User show ?thesis
      using splitToolResults_appends [of env acc bs] by (simp add: pushMessage_def)
  next
    case False
    with User show ?thesis by (simp add: pushMessage_def)
  qed
qed (simp_all add: pushMessage_def)

lemma pushMessages_appends:
  "\<exists>ys. pushMessages env acc ms = acc @ ys \<and> filter isSystemMessage ys = []"
proof (induction ms arbitrary: acc)
  case Nil
  then show ?case by simp
next
  case (Cons m ms)
  obtain ys where ys: "pushMessage env acc m = acc @ ys" "filter isSystemMessage ys = []"
    using pushMessage_appends by blast
  obtain zs where zs: "pushMessages env (acc @ ys) ms = (acc @ ys) @ zs" "filter isSystemMessage zs = []"
    using Cons.IH by blast
  show ?case using ys zs by simp
qed

text \<open>
  C3, as the code has it. \<open>buildLangChainMessages\<close> always puts a truthy system
  instruction first, as a system message, whatever the history holds; the system
  messages of the history are the ones left out. So the result has exactly one system
  message, the leading one, when the instruction is truthy, and none when it is absent or
  empty.
\<close>

theorem system_instruction_leads:
  "(\<exists>rest. buildLangChainMessages env messages (Some (c # cs)) = SystemMessage (c # cs) # rest
       \<and> filter isSystemMessage rest = [])
   \<and> filter isSystemMessage (buildLangChainMessages env messages None) = []
   \<and> filter isSystemMessage (buildLangChainMessages env messages (Some [])) = []"
proof -
  obtain ys where ys: "pushMessages env [SystemMessage (c # cs)] messages = [SystemMessage (c # cs)] @ ys"
      "filter isSystemMessage ys = []"
    using pushMessages_appends by blast
  obtain zs where zs: "pushMessages env [] messages = [] @ zs" "filter isSystemMessage zs = []"
    using pushMessages_appends by blast
  show ?thesis using ys zs by (simp add: buildLangChainMessages_def)
qed

text \<open>
  C3 as stated fails: the history below contains a system message, and the instruction
  is prepended all the same (the system message of the history is what is dropped).
\<close>

theorem system_instruction_prepended_despite_history:
  "buildLangChainMessages sampleJs [systemText ''You are a store clerk'', userText ''hi'']
     (Some ''Be brief'')
   = [SystemMessage ''Be brief'', HumanMessage (CString ''hi'')]"
  by (simp add: buildLangChainMessages_def pushMessage_def systemText_def userText_def)

section \<open>Properties: tool-use ids of the converted message\<close>

lemma existingToolIds_set: "set (existingToolIds bs) = set (toolUseIds bs) - {[]}"
  by (induction bs rule: existingToolIds.induct) auto

lemma toolUseIds_toolBlocksFrom:
  "list_all (\<lambda>tc. truthy (call_id tc)) tcs \<Longrightarrow>
   map Some (toolUseIds (toolBlocksFrom dateNow k tcs)) = map call_id tcs"
proof (induction tcs arbitrary: k)
  case Nil
  then show ?case by simp
next
  case (Cons tc tcs)
  from Cons.prems have t: "truthy (call_id tc)" by simp
  then obtain c cs where "call_id tc = Some (c # cs)"
    by (cases "call_id tc"; cases "the (call_id tc)") auto
  with Cons show ?case by (simp add: toolBlockOf_def)
qed

lemma hasId_iff: "hasId ids (Some i) = (i \<in> set ids)"
  by (simp add: hasId_def)

lemma kept_ids:
  assumes "list_all (\<lambda>tc. truthy (call_id tc)) tcs"
  shows "map call_id (filter (\<lambda>toolCall. \<not> hasId (existingToolIds cb) (call_id toolCall)) tcs)
      = filter (\<lambda>i. i \<notin> Some ` set (toolUseIds cb)) (map call_id tcs)"
  using assms
proof (induction tcs)
  case Nil
  then show ?case by simp
next
  case (Cons tc tcs)
  from Cons.prems have "truthy (call_id tc)" by simp
  then obtain c cs where i: "call_id tc = Some (c # cs)"
    by (cases "call_id tc"; cases "the (call_id tc)") auto
  have "hasId (existingToolIds cb) (call_id tc) = (call_id tc \<in> Some ` set (toolUseIds cb))"
    by (auto simp: i hasId_iff existingToolIds_set)
  with Cons show ?case by simp
qed

text \<open>
  C10, as the code has it. When every tool call carries a truthy id, the \<open>tool_use\<close> ids
  of the converted message are those of the converted content followed by the ids of
  the tool calls that do not occur among them, in order: a tool call whose id is already
  in the content is not appended. If moreover the ids are pairwise distinct within the
  content and within \<open>tool_calls\<close>, they are pairwise distinct in the result. Nothing
  removes a duplicate that \<open>tool_calls\<close> itself contains.
\<close>

theorem merge_keeps_ids_distinct:
  assumes truthyIds: "list_all (\<lambda>tc. truthy (call_id tc)) (callsOf m)"
  shows "map Some
           (toolUseIds (final_content (convertAIMessageLikeToClaudeMessage dateNow (Some m) r)))
         = map Some (toolUseIds (convertContentToClaudeBlocks (chunk_content m)))
           @ filter (\<lambda>i. i \<notin> Some ` set (toolUseIds (convertContentToClaudeBlocks (chunk_content m))))
               (map call_id (callsOf m))
     \<and> (distinct (map call_id (callsOf m))
          \<and> distinct (toolUseIds (convertContentToClaudeBlocks (chunk_content m)))
        \<longrightarrow> distinct
             (toolUseIds (final_content (convertAIMessageLikeToClaudeMessage dateNow (Some m) r))))"
proof -
  let ?cb = "convertContentToClaudeBlocks (chunk_content m)"
  let ?kept = "filter (\<lambda>toolCall. \<not> hasId (existingToolIds ?cb) (call_id toolCall)) (callsOf m)"
  let ?tb = "toolBlocksFrom dateNow 0 ?kept"
  have fc: "final_content (convertAIMessageLikeToClaudeMessage dateNow (Some m) r) = ?cb @ ?tb"
    by (simp add: convertAIMessageLikeToClaudeMessage_def Let_def callsOf_def)
  have keptTruthy: "list_all (\<lambda>tc. truthy (call_id tc)) ?kept"
    using truthyIds by (simp add: list_all_iff)
  have ids: "map Some (toolUseIds ?tb) = map call_id ?kept"
    using keptTruthy by (rule toolUseIds_toolBlocksFrom)
  have first: "map Some
           (toolUseIds (final_content (convertAIMessageLikeToClaudeMessage dateNow (Some m) r)))
         = map Some (toolUseIds ?cb)
           @ filter (\<lambda>i. i \<notin> Some ` set (toolUseIds ?cb)) (map call_id (callsOf m))"
    by (simp only: fc toolUseIds_append map_append ids kept_ids [OF truthyIds])
  have second: "distinct (map call_id (callsOf m))
          \<and> distinct (toolUseIds ?cb)
        \<longrightarrow> distinct
             (toolUseIds (final_content (convertAIMessageLikeToClaudeMessage dateNow (Some m) r)))"
  proof
    assume both: "distinct (map call_id (callsOf m)) \<and> distinct (toolUseIds ?cb)"
    then have distinctCalls: "distinct (map call_id (callsOf m))"
      and distinctContent: "distinct (toolUseIds ?cb)"
      by simp_all
    have "distinct (map call_id ?kept)"
      using distinctCalls by (rule distinct_map_filter)
    then have "distinct (map Some (toolUseIds ?tb))" by (simp add: ids)
    then have d2: "distinct (toolUseIds ?tb)" by (simp add: distinct_map)
    have disj: "set (toolUseIds ?cb) \<inter> set (toolUseIds ?tb) = {}"
    proof (rule ccontr)
      assume "set (toolUseIds ?cb) \<inter> set (toolUseIds ?tb) \<noteq> {}"
      then obtain i where i1: "i \<in> set (toolUseIds ?cb)" and i2: "i \<in> set (toolUseIds ?tb)"
        by blast
      from i2 have "Some i \<in> set (map Some (toolUseIds ?tb))" by simp
      then have "Some i \<in> set (map call_id ?kept)" by (simp only: ids)
      then obtain tc where tc: "tc \<in> set ?kept" "call_id tc = Some i" by auto
      from tc keptTruthy have ne: "i \<noteq> []" by (auto simp: list_all_iff)
      from tc have "\<not> hasId (existingToolIds ?cb) (Some i)" by auto
      then have "i \<notin> set (existingToolIds ?cb)" by (simp add: hasId_iff)
      with i1 ne show False by (simp add: existingToolIds_set)
    qed
    show "distinct
         (toolUseIds (final_content (convertAIMessageLikeToClaudeMessage dateNow (Some m) r)))"
      using distinctContent d2 disj by (simp add: fc toolUseIds_append)
  qed
  from first second show ?thesis by blast
qed

theorem merge_keeps_ids_distinct_witness:
  "toolUseIds (final_content (convertAIMessageLikeToClaudeMessage (\<lambda>k. 0)
       (Some (messageLike
          (CBlocks [Text ''Searching'', ToolUse ''call_1'' ''search'' (JObject [])])
          [toolCall ''call_1'' ''search'', toolCall ''call_2'' ''get_cart'']))
       None))
   = [''call_1'', ''call_2'']"
proof -
  let ?m = "messageLike
          (CBlocks [Text ''Searching'', ToolUse ''call_1'' ''search'' (JObject [])])
          [toolCall ''call_1'' ''search'', toolCall ''call_2'' ''get_cart'']"
  have h1: "list_all (\<lambda>tc. truthy (call_id tc)) (callsOf ?m)"
    by (simp add: callsOf_def messageLike_def toolCall_def)
  have h2: "distinct (map call_id (callsOf ?m))"
    by (simp add: callsOf_def messageLike_def toolCall_def)
  have h3: "distinct (toolUseIds (convertContentToClaudeBlocks (chunk_content ?m)))"
    by (simp add: messageLike_def)
  from h2 h3 merge_keeps_ids_distinct [OF h1, of "\<lambda>k. 0" None]
  have "distinct (toolUseIds (final_content
          (convertAIMessageLikeToClaudeMessage (\<lambda>k. 0) (Some ?m) None)))"
    by blast
  then show ?thesis
    by (simp add: callsOf_def messageLike_def toolCall_def orEmptyObject_def
        convertAIMessageLikeToClaudeMessage_def hasId_def toolBlockOf_def)
qed

text \<open>
  C10 as stated fails: two tool calls with the same id, neither of them in the content,
  give two \<open>tool_use\<close> blocks with that id.
\<close>

theorem duplicate_tool_call_ids_are_kept:
  "final_content (convertAIMessageLikeToClaudeMessage (\<lambda>k. 0)
       (Some (messageLike (CString [])
          [toolCall ''call_1'' ''get_cart'', toolCall ''call_1'' ''update_cart'']))
       None)
   = [ToolUse ''call_1'' ''get_cart'' (JObject []), ToolUse ''call_1'' ''update_cart'' (JObject [])]"
  by (simp add: convertAIMessageLikeToClaudeMessage_def messageLike_def toolCall_def hasId_def
      toolBlockOf_def)

section \<open>Properties: the outbound messages of the raw OpenAI service\<close>




lemma tc_id_toolCallsOf: "map tc_id (toolCallsOf env items) = toolUseIds items"
  by (induction items rule: toolUseIds.induct) simp_all
























end
